theory Spec2Isabelle
  imports Complex_Main "HOL-Library.Option_ord" "HOL-Library.Multiset"
begin

section \<open>SQL values and operators\<close>

text \<open>
  The derived metrics of the repository are three SQL views created by
  \<^verbatim>\<open>NonprofitDataGenerator.create_views\<close> and the queries of the dashboard
  that read them. The views are embedded as functions from the rows of the base tables
  to the rows of the view.

  A column declared \<^verbatim>\<open>REAL\<close> holds a binary64 number or \<^verbatim>\<open>NULL\<close>: the
  model uses \<open>real option\<close> with \<open>None\<close> for \<^verbatim>\<open>NULL\<close>, and \<open>real\<close> where the
  column is declared \<^verbatim>\<open>NOT NULL\<close>; a \<open>real\<close> is the value of the stored double.

  The arithmetic of SQLite on such numbers is not code of the repository, and it rounds:
  the product, quotient, sum and difference of two doubles are the doubles next to the
  exact results, \<^verbatim>\<open>ROUND\<close> and \<^verbatim>\<open>SUM\<close> have changed their algorithms
  between versions of SQLite, and the repository fixes no version. The views therefore
  take the arithmetic as a parameter, a record of the six operations. Nothing is assumed
  of them in the definitions; a property that needs their accuracy says so. Their results
  are taken to be finite: an overflow to infinity is outside the model. The comparison of
  two doubles is exact, and so are the literals 100.0 and 0.75.
\<close>

record arith =
  f_mul :: "real \<Rightarrow> real \<Rightarrow> real"
  f_div :: "real \<Rightarrow> real \<Rightarrow> real"
  f_add :: "real \<Rightarrow> real \<Rightarrow> real"
  f_sub :: "real \<Rightarrow> real \<Rightarrow> real"
  f_round :: "real \<Rightarrow> nat \<Rightarrow> real"
  f_sum :: "real list \<Rightarrow> real"

text \<open>
  An operator with a \<^verbatim>\<open>NULL\<close> operand yields \<^verbatim>\<open>NULL\<close>, and so does a
  division by zero.
\<close>

fun sql_mul :: "arith \<Rightarrow> real option \<Rightarrow> real option \<Rightarrow> real option" where
  "sql_mul ar (Some a) (Some b) = Some (f_mul ar a b)"
| "sql_mul ar _ _ = None"

fun sql_sub :: "arith \<Rightarrow> real option \<Rightarrow> real option \<Rightarrow> real option" where
  "sql_sub ar (Some a) (Some b) = Some (f_sub ar a b)"
| "sql_sub ar _ _ = None"

fun sql_add :: "arith \<Rightarrow> real option \<Rightarrow> real option \<Rightarrow> real option" where
  "sql_add ar (Some a) (Some b) = Some (f_add ar a b)"
| "sql_add ar _ _ = None"

fun sql_div :: "arith \<Rightarrow> real option \<Rightarrow> real option \<Rightarrow> real option" where
  "sql_div ar (Some a) (Some b) = (if b = 0 then None else Some (f_div ar a b))"
| "sql_div ar _ _ = None"

text \<open>Comparisons are three-valued; \<open>None\<close> is the unknown truth value.\<close>

fun sql_ge :: "real option \<Rightarrow> real option \<Rightarrow> bool option" where
  "sql_ge (Some a) (Some b) = Some (b \<le> a)"
| "sql_ge _ _ = None"

fun sql_gt :: "real option \<Rightarrow> real option \<Rightarrow> bool option" where
  "sql_gt (Some a) (Some b) = Some (b < a)"
| "sql_gt _ _ = None"

fun sql_eq_text :: "string option \<Rightarrow> string option \<Rightarrow> bool option" where
  "sql_eq_text (Some a) (Some b) = Some (a = b)"
| "sql_eq_text _ _ = None"

text \<open>
  A \<^verbatim>\<open>WHERE\<close> clause, a join condition and a \<^verbatim>\<open>WHEN\<close> branch take a row
  only when the condition is true: unknown counts as false.
\<close>

definition sql_true :: "bool option \<Rightarrow> bool" where
  "sql_true c = (c = Some True)"

text \<open>\<^verbatim>\<open>ROUND(x, n)\<close> is \<^verbatim>\<open>NULL\<close> on \<^verbatim>\<open>NULL\<close>.\<close>

definition sql_round :: "arith \<Rightarrow> real option \<Rightarrow> nat \<Rightarrow> real option" where
  "sql_round ar v n = map_option (\<lambda>x. f_round ar x n) v"

text \<open>
  \<^verbatim>\<open>SUM\<close> skips \<^verbatim>\<open>NULL\<close> inputs and is \<^verbatim>\<open>NULL\<close> when no input is left.
\<close>

definition sql_sum :: "arith \<Rightarrow> real option list \<Rightarrow> real option" where
  "sql_sum ar vs =
     (case List.map_filter id vs of [] \<Rightarrow> None | w # ws \<Rightarrow> Some (f_sum ar (w # ws)))"

text \<open>
  The relative error of one correctly rounded binary64 operation is at most
  \<open>1 / 2 ^ 53\<close>.
\<close>

definition unit_roundoff :: real where
  "unit_roundoff = 1 / 2 ^ 53"

section \<open>Base tables\<close>

text \<open>
  One record per table of \<^verbatim>\<open>create_tables\<close>, with the key and the columns the views
  read, named by the alias the views give the table. \<^verbatim>\<open>grant_id\<close> is the primary
  key of \<^verbatim>\<open>grants\<close>, so the rows of that table have pairwise different keys
  (a \<^verbatim>\<open>NULL\<close> key, which the generator never writes, is left out).
  The foreign keys of the other tables are declared but SQLite does not enforce them
  unless \<^verbatim>\<open>PRAGMA foreign_keys\<close> is switched on, which the code never does: a
  row may name a grant that does not exist.
\<close>

record grants =
  g_grant_id :: string
  g_grant_name :: string
  g_funder_name :: string
  g_total_amount :: real
  g_start_date :: string
  g_end_date :: string
  g_status :: "string option"

record budget_categories =
  bc_category_id :: string
  bc_grant_id :: string
  bc_category_name :: string
  bc_budgeted_amount :: real
  bc_spent_amount :: "real option"

record deliverables =
  d_deliverable_id :: string
  d_grant_id :: string
  d_deliverable_name :: string
  d_due_date :: string
  d_status :: "string option"

record outcome_metrics =
  om_metric_id :: string
  om_grant_id :: string
  om_metric_name :: string
  om_target_value :: real
  om_current_value :: "real option"
  om_unit_of_measure :: "string option"

record reports =
  r_report_id :: string
  r_grant_id :: string
  r_report_type :: string
  r_due_date :: string
  r_status :: "string option"

section \<open>Outcome performance\<close>

text \<open>
  The view \<^verbatim>\<open>v_outcome_performance\<close>: an inner join of the metrics with their grant,
  the rounded percentage of the target and the three-way \<^verbatim>\<open>CASE\<close> on the raw
  values.
\<close>

record outcome_performance =
  op_grant_id :: string
  op_grant_name :: string
  op_metric_name :: string
  op_target_value :: real
  op_current_value :: "real option"
  achievement_percentage :: "real option"
  op_unit_of_measure :: "string option"
  op_status :: string

definition outcome_status :: "arith \<Rightarrow> real option \<Rightarrow> real \<Rightarrow> string" where
  "outcome_status ar current_value target_value =
     (if sql_true (sql_ge current_value (Some target_value)) then ''On Track''
      else if sql_true (sql_ge current_value (sql_mul ar (Some target_value) (Some 0.75)))
        then ''Needs Attention''
      else ''At Risk'')"

definition outcome_row :: "arith \<Rightarrow> outcome_metrics \<Rightarrow> grants \<Rightarrow> outcome_performance" where
  "outcome_row ar om g =
     \<lparr> op_grant_id = om_grant_id om,
       op_grant_name = g_grant_name g,
       op_metric_name = om_metric_name om,
       op_target_value = om_target_value om,
       op_current_value = om_current_value om,
       achievement_percentage =
         sql_round ar (sql_div ar (sql_mul ar (Some 100) (om_current_value om))
                            (Some (om_target_value om))) 2,
       op_unit_of_measure = om_unit_of_measure om,
       op_status = outcome_status ar (om_current_value om) (om_target_value om) \<rparr>"

definition v_outcome_performance ::
  "arith \<Rightarrow> grants list \<Rightarrow> outcome_metrics list \<Rightarrow> outcome_performance list" where
  "v_outcome_performance ar gs oms =
     concat (map (\<lambda>om. map (outcome_row ar om)
                          (filter (\<lambda>g. om_grant_id om = g_grant_id g) gs)) oms)"

section \<open>Grant summary\<close>

text \<open>
  \<^verbatim>\<open>julianday\<close> is a function of SQLite, not of the repository: the views take
  it as the parameter \<open>julianday\<close>, which maps the text of a date column to its Julian
  day number and is \<^verbatim>\<open>NULL\<close> on a text that is no date. The parameter \<open>now\<close>
  is the value of \<^verbatim>\<open>julianday('now')\<close> when the view is read.

  The view \<^verbatim>\<open>v_grant_summary\<close> left-joins every grant with its budget categories
  and groups by the grant key. A grant without a category is joined with one row whose
  category columns are all \<^verbatim>\<open>NULL\<close>, here \<open>None\<close>. Grant keys are pairwise
  different, so a group is one grant with its joined rows. SQL leaves the order of the
  groups open; the model lists them in the order of the table.
\<close>

record grant_summary =
  gs_grant_id :: string
  gs_grant_name :: string
  gs_funder_name :: string
  gs_total_amount :: real
  gs_start_date :: string
  gs_end_date :: string
  gs_status :: "string option"
  total_spent :: "real option"
  remaining_budget :: "real option"
  spent_percentage :: "real option"
  days_remaining :: "real option"

definition left_join_bc :: "grants \<Rightarrow> budget_categories list \<Rightarrow> budget_categories option list" where
  "left_join_bc g bcs =
     (case filter (\<lambda>bc. g_grant_id g = bc_grant_id bc) bcs of
        [] \<Rightarrow> [None]
      | m # ms \<Rightarrow> map Some (m # ms))"

definition joined_spent_amount :: "budget_categories option \<Rightarrow> real option" where
  "joined_spent_amount j = (case j of None \<Rightarrow> None | Some bc \<Rightarrow> bc_spent_amount bc)"

definition grant_summary_row ::
  "arith \<Rightarrow> (string \<Rightarrow> real option) \<Rightarrow> real \<Rightarrow> grants \<Rightarrow> budget_categories option list \<Rightarrow> grant_summary" where
  "grant_summary_row ar julianday now g js =
     \<lparr> gs_grant_id = g_grant_id g,
       gs_grant_name = g_grant_name g,
       gs_funder_name = g_funder_name g,
       gs_total_amount = g_total_amount g,
       gs_start_date = g_start_date g,
       gs_end_date = g_end_date g,
       gs_status = g_status g,
       total_spent = sql_sum ar (map joined_spent_amount js),
       remaining_budget =
         sql_sub ar (Some (g_total_amount g)) (sql_sum ar (map joined_spent_amount js)),
       spent_percentage =
         sql_round ar (sql_div ar (sql_mul ar (Some 100) (sql_sum ar (map joined_spent_amount js)))
                            (Some (g_total_amount g))) 2,
       days_remaining = sql_sub ar (julianday (g_end_date g)) (Some now) \<rparr>"

definition v_grant_summary ::
  "arith \<Rightarrow> (string \<Rightarrow> real option) \<Rightarrow> real \<Rightarrow> grants list \<Rightarrow> budget_categories list \<Rightarrow> grant_summary list" where
  "v_grant_summary ar julianday now gs bcs =
     map (\<lambda>g. grant_summary_row ar julianday now g (left_join_bc g bcs)) gs"

section \<open>Compliance alerts\<close>

text \<open>
  The view \<^verbatim>\<open>v_compliance_alerts\<close> is the \<^verbatim>\<open>UNION ALL\<close> of three selections.
  Its last column is named \<^verbatim>\<open>days_overdue\<close> in all three, and holds the percentage
  over budget in the third.
\<close>

record compliance_alerts =
  alert_type :: string
  ca_grant_id :: string
  item_name :: string
  ca_due_date :: "string option"
  days_overdue :: "real option"

definition overdue_report :: "arith \<Rightarrow> (string \<Rightarrow> real option) \<Rightarrow> real \<Rightarrow> reports \<Rightarrow> compliance_alerts" where
  "overdue_report ar julianday now r =
     \<lparr> alert_type = ''Overdue Report'',
       ca_grant_id = r_grant_id r,
       item_name = r_report_type r,
       ca_due_date = Some (r_due_date r),
       days_overdue = sql_sub ar (Some now) (julianday (r_due_date r)) \<rparr>"

definition overdue_deliverable ::
  "arith \<Rightarrow> (string \<Rightarrow> real option) \<Rightarrow> real \<Rightarrow> deliverables \<Rightarrow> compliance_alerts" where
  "overdue_deliverable ar julianday now d =
     \<lparr> alert_type = ''Overdue Deliverable'',
       ca_grant_id = d_grant_id d,
       item_name = d_deliverable_name d,
       ca_due_date = Some (d_due_date d),
       days_overdue = sql_sub ar (Some now) (julianday (d_due_date d)) \<rparr>"

definition budget_overspent :: "arith \<Rightarrow> budget_categories \<Rightarrow> compliance_alerts" where
  "budget_overspent ar bc =
     \<lparr> alert_type = ''Budget Overspent'',
       ca_grant_id = bc_grant_id bc,
       item_name = bc_category_name bc,
       ca_due_date = None,
       days_overdue =
         sql_round ar (sql_div ar (sql_mul ar (Some 100)
                               (sql_sub ar (bc_spent_amount bc) (Some (bc_budgeted_amount bc))))
                            (Some (bc_budgeted_amount bc))) 2 \<rparr>"

definition report_is_overdue :: "reports \<Rightarrow> bool" where
  "report_is_overdue r = sql_true (sql_eq_text (r_status r) (Some ''Overdue''))"

definition deliverable_is_overdue :: "deliverables \<Rightarrow> bool" where
  "deliverable_is_overdue d = sql_true (sql_eq_text (d_status d) (Some ''Overdue''))"

definition category_is_overspent :: "budget_categories \<Rightarrow> bool" where
  "category_is_overspent bc =
     sql_true (sql_gt (bc_spent_amount bc) (Some (bc_budgeted_amount bc)))"

definition v_compliance_alerts ::
  "arith \<Rightarrow> (string \<Rightarrow> real option) \<Rightarrow> real \<Rightarrow> reports list \<Rightarrow> deliverables list \<Rightarrow>
     budget_categories list \<Rightarrow> compliance_alerts list" where
  "v_compliance_alerts ar julianday now rs ds bcs =
     map (overdue_report ar julianday now) (filter report_is_overdue rs)
     @ map (overdue_deliverable ar julianday now) (filter deliverable_is_overdue ds)
     @ map (budget_overspent ar) (filter category_is_overspent bcs)"

text \<open>
  \<^verbatim>\<open>load_compliance_alerts\<close> of the dashboard joins the view with the grants (an inner
  join) and orders by the last column, descending. SQLite sorts \<^verbatim>\<open>NULL\<close> below
  every number, as the order on \<open>real option\<close> does with \<open>None\<close>. SQL leaves the order
  of rows with equal keys open; the model fixes one.
\<close>

record loaded_alert =
  ca :: compliance_alerts
  grant_name :: string
  funder_name :: string

definition join_grants :: "grants list \<Rightarrow> compliance_alerts list \<Rightarrow> loaded_alert list" where
  "join_grants gs cas =
     concat (map (\<lambda>a. map (\<lambda>g. \<lparr> ca = a, grant_name = g_grant_name g,
                                    funder_name = g_funder_name g \<rparr>)
                         (filter (\<lambda>g. ca_grant_id a = g_grant_id g) gs)) cas)"

definition order_by_days_overdue_desc :: "loaded_alert list \<Rightarrow> loaded_alert list" where
  "order_by_days_overdue_desc rows = rev (sort_key (\<lambda>row. days_overdue (ca row)) rows)"

definition load_compliance_alerts ::
  "arith \<Rightarrow> (string \<Rightarrow> real option) \<Rightarrow> real \<Rightarrow> grants list \<Rightarrow> reports list \<Rightarrow> deliverables list \<Rightarrow>
     budget_categories list \<Rightarrow> loaded_alert list" where
  "load_compliance_alerts ar julianday now gs rs ds bcs =
     order_by_days_overdue_desc (join_grants gs (v_compliance_alerts ar julianday now rs ds bcs))"

section \<open>Sample rows\<close>

text \<open>
  Rows in the format of the generator, used to run the views on concrete tables. Every
  number in them is a binary fraction of a few digits, so that each binary64 operation
  the views perform on them is exact, and no value that is rounded to two decimals lies
  near a rounding boundary. On these tables the arithmetic of SQLite is the exact one,
  with halves rounded away from zero.
\<close>

definition round_half_away :: "real \<Rightarrow> nat \<Rightarrow> real" where
  "round_half_away x n = sgn x * of_int \<lfloor>\<bar>x\<bar> * 10 ^ n + 1 / 2\<rfloor> / 10 ^ n"

definition sample_arith :: arith where
  "sample_arith =
     \<lparr> f_mul = (\<lambda>a b. a * b), f_div = (\<lambda>a b. a / b), f_add = (\<lambda>a b. a + b),
       f_sub = (\<lambda>a b. a - b), f_round = round_half_away, f_sum = sum_list \<rparr>"

text \<open>
  A second set of samples has amounts with two decimals, as the generator writes them.
  They are no binary fractions: a \<^verbatim>\<open>REAL\<close> column holds the double next to such
  an amount, given here as an exact fraction, and the operations of binary64 on them
  round. \<open>binary64_samples\<close> has the results of binary64 (and of \<^verbatim>\<open>ROUND\<close>) at
  these operands: the stored 443449.57 minus the stored 100624.46 is the stored
  342825.11, which added to the stored 100624.46 is the stored 443449.57 again; 100 times
  the stored 3.3 is 330, which divided by the stored 4.12 is the double
  80.09708737864078, rounded to the stored 80.1; the stored 4.12 times 0.75 is the stored
  3.09. At other operands, whose results the examples do not read, it is the exact
  arithmetic.
\<close>

definition stored_443449_57 :: real where
  "stored_443449_57 = 7618405602301051 / 2 ^ 34"

definition stored_100624_46 :: real where
  "stored_100624_46 = 6914860238042563 / 2 ^ 36"

definition stored_342825_11 :: real where
  "stored_342825_11 = 2944845271395205 / 2 ^ 33"

definition stored_4_12 :: real where
  "stored_4_12 = 4638707616191611 / 2 ^ 50"

definition stored_3_3 :: real where
  "stored_3_3 = 3715469692580659 / 2 ^ 50"

definition stored_3_09 :: real where
  "stored_3_09 = 869757678035927 / 2 ^ 48"

definition stored_80_1 :: real where
  "stored_80_1 = 2818268204315443 / 2 ^ 45"

definition quotient_330_4_12 :: real where
  "quotient_330_4_12 = 5636331451123573 / 2 ^ 46"

definition binary64_samples :: arith where
  "binary64_samples =
     \<lparr> f_mul = (\<lambda>a b. if a = 100 \<and> b = stored_3_3 then 330
                      else if a = stored_4_12 \<and> b = 0.75 then stored_3_09 else a * b),
       f_div = (\<lambda>a b. if a = 330 \<and> b = stored_4_12 then quotient_330_4_12 else a / b),
       f_add = (\<lambda>a b. if a = stored_342825_11 \<and> b = stored_100624_46
                      then stored_443449_57 else a + b),
       f_sub = (\<lambda>a b. if a = stored_443449_57 \<and> b = stored_100624_46
                      then stored_342825_11 else a - b),
       f_round = (\<lambda>x n. if x = quotient_330_4_12 \<and> n = 2 then stored_80_1
                        else round_half_away x n),
       f_sum = sum_list \<rparr>"

definition sample_grant :: "real \<Rightarrow> grants" where
  "sample_grant amount =
     \<lparr> g_grant_id = ''GR001'', g_grant_name = ''Food Security Initiatives Program'',
       g_funder_name = ''Acme Foundation'', g_total_amount = amount,
       g_start_date = ''2024-01-01'', g_end_date = ''2025-01-01'',
       g_status = Some ''Active'' \<rparr>"

definition sample_category ::
  "string \<Rightarrow> string \<Rightarrow> real \<Rightarrow> real option \<Rightarrow> budget_categories" where
  "sample_category cid gid budgeted spent =
     \<lparr> bc_category_id = cid, bc_grant_id = gid, bc_category_name = ''Travel'',
       bc_budgeted_amount = budgeted, bc_spent_amount = spent \<rparr>"

definition sample_metric :: "string \<Rightarrow> real \<Rightarrow> real option \<Rightarrow> outcome_metrics" where
  "sample_metric gid target current =
     \<lparr> om_metric_id = ''MET0001'', om_grant_id = gid,
       om_metric_name = ''Meals Distributed'', om_target_value = target,
       om_current_value = current, om_unit_of_measure = Some ''Meals'' \<rparr>"

definition sample_report :: "string \<Rightarrow> string \<Rightarrow> string option \<Rightarrow> reports" where
  "sample_report gid due st =
     \<lparr> r_report_id = ''REP0001'', r_grant_id = gid, r_report_type = ''Financial Report'',
       r_due_date = due, r_status = st \<rparr>"

definition sample_deliverable :: "string \<Rightarrow> string \<Rightarrow> string option \<Rightarrow> deliverables" where
  "sample_deliverable gid due st =
     \<lparr> d_deliverable_id = ''DEL0001'', d_grant_id = gid,
       d_deliverable_name = ''Final Report'', d_due_date = due, d_status = st \<rparr>"

text \<open>
  Julian day numbers of three dates; midnight of 2024-03-01 is day 2460370.5.
\<close>

definition sample_julianday :: "string \<Rightarrow> real option" where
  "sample_julianday d =
     (if d = ''2024-03-01'' then Some 2460370.5
      else if d = ''2024-03-11'' then Some 2460380.5
      else if d = ''2025-01-01'' then Some 2460676.5
      else None)"

section \<open>Properties of the outcome view\<close>

lemma v_outcome_performance_rows:
  "row \<in> set (v_outcome_performance ar gs oms) \<longleftrightarrow>
     (\<exists>om\<in>set oms. \<exists>g\<in>set gs. om_grant_id om = g_grant_id g \<and> row = outcome_row ar om g)"
  by (auto simp: v_outcome_performance_def)

lemma outcome_status_cases:
  "outcome_status ar cv t =
     (case cv of None \<Rightarrow> ''At Risk''
      | Some c \<Rightarrow> if t \<le> c then ''On Track''
                  else if f_mul ar t 0.75 \<le> c then ''Needs Attention'' else ''At Risk'')"
  by (cases cv) (simp_all add: outcome_status_def sql_true_def)

lemma outcome_row_columns:
  "op_grant_id (outcome_row ar om g) = om_grant_id om"
  "op_grant_name (outcome_row ar om g) = g_grant_name g"
  "op_metric_name (outcome_row ar om g) = om_metric_name om"
  "op_target_value (outcome_row ar om g) = om_target_value om"
  "op_current_value (outcome_row ar om g) = om_current_value om"
  "op_unit_of_measure (outcome_row ar om g) = om_unit_of_measure om"
  "op_status (outcome_row ar om g) = outcome_status ar (om_current_value om) (om_target_value om)"
  by (simp_all add: outcome_row_def)

text \<open>
  C1, as stated, fails. The claim sends a current value of exactly 75 percent of the
  target to Needs Attention. The first branch of the \<^verbatim>\<open>CASE\<close> wins where such a
  value is not below the target: a metric with target 0 and current value 0, and one with
  target -4 and current value -3, are On Track. A metric whose grant does not exist is
  given no status at all, since it has no row.
\<close>

theorem outcome_tie_break_counterexample:
  "map op_target_value
     (v_outcome_performance sample_arith [sample_grant 100000] [sample_metric ''GR001'' 0 (Some 0)])
     = [0]
   \<and> map op_current_value
     (v_outcome_performance sample_arith [sample_grant 100000] [sample_metric ''GR001'' 0 (Some 0)])
     = [Some (f_mul sample_arith 0 0.75)]
   \<and> map op_status
     (v_outcome_performance sample_arith [sample_grant 100000] [sample_metric ''GR001'' 0 (Some 0)])
     = [''On Track'']
   \<and> map op_target_value
     (v_outcome_performance sample_arith [sample_grant 100000]
        [sample_metric ''GR001'' (- 4) (Some (- 3))])
     = [- 4]
   \<and> map op_current_value
     (v_outcome_performance sample_arith [sample_grant 100000]
        [sample_metric ''GR001'' (- 4) (Some (- 3))])
     = [Some (f_mul sample_arith (- 4) 0.75)]
   \<and> map op_status
     (v_outcome_performance sample_arith [sample_grant 100000]
        [sample_metric ''GR001'' (- 4) (Some (- 3))])
     = [''On Track'']
   \<and> v_outcome_performance sample_arith [sample_grant 100000]
       [sample_metric ''GR999'' 200 (Some 150)] = []"
  by (simp add: v_outcome_performance_def sample_grant_def sample_metric_def outcome_row_def
      outcome_status_cases sample_arith_def)

text \<open>
  C1, amended. Every metric with an existing grant has a row in the outcome view that
  carries its columns, and every row of the view is the row of such a metric. The status
  of a row is On Track when the current value reaches the target, Needs Attention when it
  is below the target and reaches the product target * 0.75 as SQLite computes it, and
  At Risk otherwise (also when the current value is NULL). A value equal to the target is
  On Track; a value equal to that product and below the target is Needs Attention.
\<close>

theorem outcome_status_thresholds:
  "(\<forall>om\<in>set oms. \<forall>g\<in>set gs. om_grant_id om = g_grant_id g \<longrightarrow>
      (\<exists>row\<in>set (v_outcome_performance ar gs oms).
          op_grant_id row = om_grant_id om \<and> op_grant_name row = g_grant_name g
          \<and> op_metric_name row = om_metric_name om
          \<and> op_unit_of_measure row = om_unit_of_measure om
          \<and> op_target_value row = om_target_value om
          \<and> op_current_value row = om_current_value om))
   \<and> (\<forall>row\<in>set (v_outcome_performance ar gs oms).
        (\<exists>om\<in>set oms. \<exists>g\<in>set gs. om_grant_id om = g_grant_id g
            \<and> op_grant_id row = om_grant_id om \<and> op_grant_name row = g_grant_name g
            \<and> op_metric_name row = om_metric_name om
            \<and> op_unit_of_measure row = om_unit_of_measure om
            \<and> op_target_value row = om_target_value om
            \<and> op_current_value row = om_current_value om)
        \<and> op_status row =
           (case op_current_value row of
              None \<Rightarrow> ''At Risk''
            | Some c \<Rightarrow> if op_target_value row \<le> c then ''On Track''
                        else if f_mul ar (op_target_value row) 0.75 \<le> c then ''Needs Attention''
                        else ''At Risk'')
        \<and> (op_current_value row = Some (op_target_value row) \<longrightarrow> op_status row = ''On Track'')
        \<and> (op_current_value row = Some (f_mul ar (op_target_value row) 0.75)
              \<and> f_mul ar (op_target_value row) 0.75 < op_target_value row
              \<longrightarrow> op_status row = ''Needs Attention''))"
proof (intro conjI ballI impI)
  fix om g
  assume "om \<in> set oms" "g \<in> set gs" "om_grant_id om = g_grant_id g"
  then have "outcome_row ar om g \<in> set (v_outcome_performance ar gs oms)"
    by (auto simp: v_outcome_performance_rows)
  then show "\<exists>row\<in>set (v_outcome_performance ar gs oms).
          op_grant_id row = om_grant_id om \<and> op_grant_name row = g_grant_name g
          \<and> op_metric_name row = om_metric_name om
          \<and> op_unit_of_measure row = om_unit_of_measure om
          \<and> op_target_value row = om_target_value om
          \<and> op_current_value row = om_current_value om"
    by (rule rev_bexI) (simp add: outcome_row_columns)
next
  fix row
  assume "row \<in> set (v_outcome_performance ar gs oms)"
  then obtain om g where og: "om \<in> set oms" "g \<in> set gs" "om_grant_id om = g_grant_id g"
    and r: "row = outcome_row ar om g"
    by (auto simp: v_outcome_performance_rows)
  from og show "\<exists>om\<in>set oms. \<exists>g\<in>set gs. om_grant_id om = g_grant_id g
            \<and> op_grant_id row = om_grant_id om \<and> op_grant_name row = g_grant_name g
            \<and> op_metric_name row = om_metric_name om
            \<and> op_unit_of_measure row = om_unit_of_measure om
            \<and> op_target_value row = om_target_value om
            \<and> op_current_value row = om_current_value om"
    unfolding r outcome_row_columns by blast
  have s: "op_status row = outcome_status ar (op_current_value row) (op_target_value row)"
    by (simp add: r outcome_row_columns)
  show "op_status row =
           (case op_current_value row of
              None \<Rightarrow> ''At Risk''
            | Some c \<Rightarrow> if op_target_value row \<le> c then ''On Track''
                        else if f_mul ar (op_target_value row) 0.75 \<le> c then ''Needs Attention''
                        else ''At Risk'')"
    unfolding s outcome_status_cases ..
  show "op_status row = ''On Track''" if "op_current_value row = Some (op_target_value row)"
    using that unfolding s outcome_status_cases by simp
  show "op_status row = ''Needs Attention''"
    if "op_current_value row = Some (f_mul ar (op_target_value row) 0.75)
          \<and> f_mul ar (op_target_value row) 0.75 < op_target_value row"
    using that unfolding s outcome_status_cases by simp
qed

theorem outcome_status_thresholds_witness:
  "map op_metric_name
     (v_outcome_performance sample_arith [sample_grant 100000]
        [sample_metric ''GR001'' 200 (Some 150)]) = [''Meals Distributed'']
   \<and> map op_current_value
     (v_outcome_performance sample_arith [sample_grant 100000]
        [sample_metric ''GR001'' 200 (Some 150)]) = [Some (f_mul sample_arith 200 0.75)]
   \<and> map op_status
     (v_outcome_performance sample_arith [sample_grant 100000]
        [sample_metric ''GR001'' 200 (Some 150)]) = [''Needs Attention'']
   \<and> map op_current_value
     (v_outcome_performance binary64_samples [sample_grant 100000]
        [sample_metric ''GR001'' stored_4_12 (Some stored_3_09)])
     = [Some (f_mul binary64_samples stored_4_12 0.75)]
   \<and> stored_3_09 - stored_4_12 * 0.75 = - 1 / 2 ^ 52
   \<and> map op_status
     (v_outcome_performance binary64_samples [sample_grant 100000]
        [sample_metric ''GR001'' stored_4_12 (Some stored_3_09)]) = [''Needs Attention'']"
proof -
  have exact: "map op_metric_name
     (v_outcome_performance sample_arith [sample_grant 100000]
        [sample_metric ''GR001'' 200 (Some 150)]) = [''Meals Distributed'']
   \<and> map op_current_value
     (v_outcome_performance sample_arith [sample_grant 100000]
        [sample_metric ''GR001'' 200 (Some 150)]) = [Some (f_mul sample_arith 200 0.75)]
   \<and> map op_status
     (v_outcome_performance sample_arith [sample_grant 100000]
        [sample_metric ''GR001'' 200 (Some 150)]) = [''Needs Attention'']"
  proof -
    let ?v = "v_outcome_performance sample_arith [sample_grant 100000]
          [sample_metric ''GR001'' 200 (Some 150)]"
    have v: "?v = [hd ?v]" by (simp add: v_outcome_performance_def sample_grant_def sample_metric_def)
    then have m: "hd ?v \<in> set ?v" by (metis list.set_intros(1))
    have c: "op_current_value (hd ?v) = Some (f_mul sample_arith (op_target_value (hd ?v)) 0.75)"
      and t: "f_mul sample_arith (op_target_value (hd ?v)) 0.75 < op_target_value (hd ?v)"
      and k: "f_mul sample_arith 200 0.75 = 150"
      and n: "op_metric_name (hd ?v) = ''Meals Distributed''"
      by (simp_all add: v_outcome_performance_def sample_grant_def sample_metric_def outcome_row_def
          sample_arith_def)
    from outcome_status_thresholds [of "[sample_metric ''GR001'' 200 (Some 150)]"
        "[sample_grant 100000]" sample_arith] m c t
    have "op_status (hd ?v) = ''Needs Attention''" by blast
    with c n k have "op_metric_name (hd ?v) = ''Meals Distributed''
        \<and> op_current_value (hd ?v) = Some (f_mul sample_arith 200 0.75)
        \<and> op_status (hd ?v) = ''Needs Attention''"
      by (simp add: v_outcome_performance_def sample_grant_def sample_metric_def outcome_row_def)
    then show ?thesis by (subst (1 2 3) v) simp
  qed
  have rounded: "map op_current_value
     (v_outcome_performance binary64_samples [sample_grant 100000]
        [sample_metric ''GR001'' stored_4_12 (Some stored_3_09)])
     = [Some (f_mul binary64_samples stored_4_12 0.75)]
   \<and> stored_3_09 - stored_4_12 * 0.75 = - 1 / 2 ^ 52
   \<and> map op_status
     (v_outcome_performance binary64_samples [sample_grant 100000]
        [sample_metric ''GR001'' stored_4_12 (Some stored_3_09)]) = [''Needs Attention'']"
  proof -
    let ?v = "v_outcome_performance binary64_samples [sample_grant 100000]
          [sample_metric ''GR001'' stored_4_12 (Some stored_3_09)]"
    have v: "?v = [hd ?v]" by (simp add: v_outcome_performance_def sample_grant_def sample_metric_def)
    then have m: "hd ?v \<in> set ?v" by (metis list.set_intros(1))
    have t: "op_target_value (hd ?v) = stored_4_12"
      and c: "op_current_value (hd ?v) = Some stored_3_09"
      by (simp_all add: v_outcome_performance_def sample_grant_def sample_metric_def outcome_row_def)
    have k: "f_mul binary64_samples stored_4_12 0.75 = stored_3_09"
      by (simp add: binary64_samples_def stored_4_12_def)
    have c': "op_current_value (hd ?v)
        = Some (f_mul binary64_samples (op_target_value (hd ?v)) 0.75)"
      unfolding t k by (rule c)
    have b: "f_mul binary64_samples (op_target_value (hd ?v)) 0.75 < op_target_value (hd ?v)"
      unfolding t k by (simp add: stored_3_09_def stored_4_12_def)
    have d: "stored_3_09 - stored_4_12 * 0.75 = - 1 / 2 ^ 52"
      by (simp add: stored_3_09_def stored_4_12_def)
    from outcome_status_thresholds [of "[sample_metric ''GR001'' stored_4_12 (Some stored_3_09)]"
        "[sample_grant 100000]" binary64_samples] m c' b
    have "op_status (hd ?v) = ''Needs Attention''" by blast
    with c k d have "op_current_value (hd ?v) = Some (f_mul binary64_samples stored_4_12 0.75)
        \<and> stored_3_09 - stored_4_12 * 0.75 = - 1 / 2 ^ 52
        \<and> op_status (hd ?v) = ''Needs Attention''"
      by simp
    then show ?thesis by (subst (1 2) v) simp
  qed
  from exact rounded show ?thesis by blast
qed


subsection \<open>Status and the rounded percentage\<close>

text \<open>
  An operation that is accurate to a relative error of at most one millionth keeps its
  result between 0.999999 and 1.000001 times the exact one; a rounding to two decimals
  moves its argument by at most 0.005 more.
\<close>

lemma rel_error_nonneg:
  fixes r y e :: real
  assumes "\<bar>r - y\<bar> \<le> e * \<bar>y\<bar>" and "0 \<le> e" and "e \<le> 1 / 1000000" and "0 \<le> y"
  shows "(999999 / 1000000) * y \<le> r \<and> r \<le> (1000001 / 1000000) * y"
proof -
  have "e * y \<le> (1 / 1000000) * y"
    using assms(3,4) by (rule mult_right_mono)
  moreover have "\<bar>r - y\<bar> \<le> e * y" using assms(1,4) by simp
  ultimately show ?thesis by linarith
qed

lemma rel_error_nonpos:
  fixes r y e :: real
  assumes "\<bar>r - y\<bar> \<le> e * \<bar>y\<bar>" and "0 \<le> e" and "e \<le> 1 / 1000000" and "y \<le> 0"
  shows "r \<le> (999999 / 1000000) * y"
proof -
  have "e * (- y) \<le> (1 / 1000000) * (- y)"
    using assms(3,4) by (intro mult_right_mono) simp_all
  moreover have "\<bar>r - y\<bar> \<le> e * (- y)" using assms(1,4) by simp
  ultimately show ?thesis by linarith
qed

lemma round_error_nonneg:
  fixes p q e :: real
  assumes "\<bar>p - q\<bar> \<le> 5 / 1000 + e * (\<bar>q\<bar> + 1)" and "0 \<le> e" and "e \<le> 1 / 1000000" and "0 \<le> q"
  shows "(999999 / 1000000) * q - 5001 / 1000000 \<le> p \<and> p \<le> (1000001 / 1000000) * q + 5001 / 1000000"
proof -
  have d: "e * (q + 1) \<le> (1 / 1000000) * (q + 1)"
    using assms(3,4) by (intro mult_right_mono) simp_all
  have "\<bar>p - q\<bar> \<le> 5 / 1000 + e * (q + 1)" using assms(1,4) by simp
  also have "\<dots> \<le> 5 / 1000 + (1 / 1000000) * (q + 1)" using d by (rule add_left_mono)
  finally show ?thesis by argo
qed

lemma round_error_nonpos:
  fixes p q e :: real
  assumes "\<bar>p - q\<bar> \<le> 5 / 1000 + e * (\<bar>q\<bar> + 1)" and "0 \<le> e" and "e \<le> 1 / 1000000" and "q \<le> 0"
  shows "p \<le> 5001 / 1000000"
proof -
  have d: "e * (- q + 1) \<le> (1 / 1000000) * (- q + 1)"
    using assms(3,4) by (intro mult_right_mono) simp_all
  have "\<bar>p - q\<bar> \<le> 5 / 1000 + e * (- q + 1)" using assms(1,4) by simp
  also have "\<dots> \<le> 5 / 1000 + (1 / 1000000) * (- q + 1)" using d by (rule add_left_mono)
  finally show ?thesis using assms(4) by argo
qed

text \<open>
  With a positive target \<open>t\<close>, a current value \<open>c\<close>, the computed product
  \<open>m\<close> of 100 and \<open>c\<close>, the computed quotient \<open>q\<close> of \<open>m\<close> and \<open>t\<close>, the
  computed product \<open>k\<close> of \<open>t\<close> and 0.75 and the rounded percentage \<open>p\<close>, a
  percentage away from 75.00 and 100.00 decides both comparisons of the
  \<^verbatim>\<open>CASE\<close>.
\<close>

lemma status_from_percentage:
  fixes c t e m q k p :: real
  assumes t: "0 < t" and e: "0 \<le> e" "e \<le> 1 / 1000000"
    and m: "\<bar>m - 100 * c\<bar> \<le> e * \<bar>100 * c\<bar>"
    and q: "\<bar>q - m / t\<bar> \<le> e * \<bar>m / t\<bar>"
    and k: "\<bar>k - t * (3 / 4)\<bar> \<le> e * \<bar>t * (3 / 4)\<bar>"
    and p: "\<bar>p - q\<bar> \<le> 5 / 1000 + e * (\<bar>q\<bar> + 1)"
  shows "((100006 / 1000) < p \<longrightarrow> t \<le> c) \<and> (p < (99994 / 1000) \<longrightarrow> c < t)
       \<and> ((75006 / 1000) < p \<longrightarrow> k \<le> c) \<and> (p < (74994 / 1000) \<longrightarrow> c < k)"
proof -
  define x where "x = 100 * c / t"
  have kb: "(999999 / 1000000) * (t * (3 / 4)) \<le> k \<and> k \<le> (1000001 / 1000000) * (t * (3 / 4))"
    using k e t by (intro rel_error_nonneg) simp_all
  have x1: "c < t \<Longrightarrow> x < 100" using t by (simp add: x_def field_simps)
  have x2: "t \<le> c \<Longrightarrow> 100 \<le> x" using t by (simp add: x_def field_simps)
  have x3: "c < k \<Longrightarrow> x < (75000075 / 1000000)"
  proof -
    assume "c < k"
    with kb have "c < (1000001 / 1000000) * (t * (3 / 4))" by linarith
    then show ?thesis using t by (simp add: x_def field_simps)
  qed
  have x4: "k \<le> c \<Longrightarrow> (74999925 / 1000000) \<le> x"
  proof -
    assume "k \<le> c"
    with kb have "(999999 / 1000000) * (t * (3 / 4)) \<le> c" by linarith
    then show ?thesis using t by (simp add: x_def field_simps)
  qed
  show ?thesis
  proof (cases "0 \<le> c")
    case True
    then have x0: "0 \<le> x" using t by (simp add: x_def)
    have mb: "(999999 / 1000000) * (100 * c) \<le> m \<and> m \<le> (1000001 / 1000000) * (100 * c)"
      using m e True by (intro rel_error_nonneg) simp_all
    then have m0: "0 \<le> m" using True by linarith
    have "(999999 / 1000000) * x = (999999 / 1000000) * (100 * c) / t"
      by (simp add: x_def)
    also have "\<dots> \<le> m / t"
      using mb t by (intro divide_right_mono) simp_all
    finally have db1: "(999999 / 1000000) * x \<le> m / t" .
    have "m / t \<le> (1000001 / 1000000) * (100 * c) / t"
      using mb t by (intro divide_right_mono) simp_all
    also have "\<dots> = (1000001 / 1000000) * x"
      by (simp add: x_def)
    finally have db2: "m / t \<le> (1000001 / 1000000) * x" .
    note db = db1 db2
    have d0: "0 \<le> m / t" using m0 t by simp
    have qb: "(999999 / 1000000) * (m / t) \<le> q \<and> q \<le> (1000001 / 1000000) * (m / t)"
      using q e d0 by (intro rel_error_nonneg) simp_all
    then have q0: "0 \<le> q" using d0 by linarith
    have pb: "(999999 / 1000000) * q - 5001 / 1000000 \<le> p \<and> p \<le> (1000001 / 1000000) * q + 5001 / 1000000"
      using p e q0 by (intro round_error_nonneg) simp_all
    from db qb pb x0 have lo: "(999997 / 1000000) * x - 5001 / 1000000 \<le> p" and hi: "p \<le> (10000031 / 10000000) * x + 5001 / 1000000"
      by linarith+
    show ?thesis
    proof (intro conjI impI)
      assume "(100006 / 1000) < p"
      show "t \<le> c"
      proof (rule ccontr)
        assume "\<not> t \<le> c"
        then have "x < 100" using x1 by simp
        with hi \<open>(100006 / 1000) < p\<close> show False by linarith
      qed
    next
      assume "p < (99994 / 1000)"
      show "c < t"
      proof (rule ccontr)
        assume "\<not> c < t"
        then have "100 \<le> x" using x2 by simp
        with lo \<open>p < (99994 / 1000)\<close> show False by linarith
      qed
    next
      assume "(75006 / 1000) < p"
      show "k \<le> c"
      proof (rule ccontr)
        assume "\<not> k \<le> c"
        then have "x < (75000075 / 1000000)" using x3 by simp
        with hi \<open>(75006 / 1000) < p\<close> show False by linarith
      qed
    next
      assume "p < (74994 / 1000)"
      show "c < k"
      proof (rule ccontr)
        assume "\<not> c < k"
        then have "(74999925 / 1000000) \<le> x" using x4 by simp
        with lo \<open>p < (74994 / 1000)\<close> show False by linarith
      qed
    qed
  next
    case False
    then have c0: "c < 0" by simp
    have "m \<le> (999999 / 1000000) * (100 * c)"
      using m e c0 by (intro rel_error_nonpos) simp_all
    then have m0: "m \<le> 0" using c0 by linarith
    then have d0: "m / t \<le> 0" using t by (simp add: divide_nonpos_pos)
    have "q \<le> (999999 / 1000000) * (m / t)"
      using q e d0 by (intro rel_error_nonpos) simp_all
    then have q0: "q \<le> 0" using d0 by linarith
    have pb: "p \<le> 5001 / 1000000"
      using p e q0 by (intro round_error_nonpos) simp_all
    have "0 < k" using kb t by linarith
    with c0 t pb show ?thesis by simp
  qed
qed

lemma outcome_row_percentage:
  "om_target_value om \<noteq> 0 \<Longrightarrow> om_current_value om = Some c \<Longrightarrow>
     achievement_percentage (outcome_row ar om g) =
       Some (f_round ar (f_div ar (f_mul ar 100 c) (om_target_value om)) 2)"
  by (simp add: outcome_row_def sql_round_def)

text \<open>
  C7, as stated, fails. The status is computed from the raw values and the percentage is
  rounded: a metric with target 1024 and current value 767.96875 has the percentage 75.00
  and the status At Risk, one with current value 1023.96875 has the percentage 100.00 and
  the status Needs Attention, and a metric with target -4 and current value -2 has the
  percentage 50.00 and the status On Track.
\<close>

theorem rounded_percentage_counterexample:
  "map achievement_percentage
     (v_outcome_performance sample_arith [sample_grant 100000]
        [sample_metric ''GR001'' 1024 (Some 767.96875)]) = [Some 75]
   \<and> map op_status
     (v_outcome_performance sample_arith [sample_grant 100000]
        [sample_metric ''GR001'' 1024 (Some 767.96875)]) = [''At Risk'']
   \<and> map achievement_percentage
     (v_outcome_performance sample_arith [sample_grant 100000]
        [sample_metric ''GR001'' 1024 (Some 1023.96875)]) = [Some 100]
   \<and> map op_status
     (v_outcome_performance sample_arith [sample_grant 100000]
        [sample_metric ''GR001'' 1024 (Some 1023.96875)]) = [''Needs Attention'']
   \<and> map achievement_percentage
     (v_outcome_performance sample_arith [sample_grant 100000]
        [sample_metric ''GR001'' (- 4) (Some (- 2))]) = [Some 50]
   \<and> map op_status
     (v_outcome_performance sample_arith [sample_grant 100000]
        [sample_metric ''GR001'' (- 4) (Some (- 2))]) = [''On Track'']"
  by (simp add: v_outcome_performance_def sample_grant_def sample_metric_def outcome_row_def
      outcome_status_cases sql_round_def sample_arith_def round_half_away_def)

text \<open>
  C7, amended. Take a row of the outcome view with a positive target and a current
  value, and let the two products, the quotient and the rounding that SQLite performs for
  it be accurate: the products and the quotient to a relative error \<open>e\<close> of at most
  one millionth, the rounded value within 0.005 (and that relative error) of its
  argument, as binary64 arithmetic away from overflow and underflow is. Then the rounded
  percentage decides the status away from the two boundaries: a percentage of 100.01 or
  more (above 100.006) is On Track, one from 75.01 to 99.99 (between 75.006 and 99.994) is
  Needs Attention, one of 74.99 or less (below 74.994) is At Risk. Nothing is said of the
  percentages 75.00 and 100.00, nor of targets that are not positive.
\<close>

theorem outcome_status_of_percentage:
  assumes "row \<in> set (v_outcome_performance ar gs oms)"
    and "0 < op_target_value row"
    and "op_current_value row = Some c"
    and "0 \<le> e" and "e \<le> 1 / 10 ^ 6"
    and "\<bar>f_mul ar 100 c - 100 * c\<bar> \<le> e * \<bar>100 * c\<bar>"
    and "\<bar>f_div ar (f_mul ar 100 c) (op_target_value row) - f_mul ar 100 c / op_target_value row\<bar>
           \<le> e * \<bar>f_mul ar 100 c / op_target_value row\<bar>"
    and "\<bar>f_mul ar (op_target_value row) 0.75 - op_target_value row * 0.75\<bar>
           \<le> e * \<bar>op_target_value row * 0.75\<bar>"
    and "\<bar>f_round ar (f_div ar (f_mul ar 100 c) (op_target_value row)) 2
            - f_div ar (f_mul ar 100 c) (op_target_value row)\<bar>
           \<le> 0.005 + e * (\<bar>f_div ar (f_mul ar 100 c) (op_target_value row)\<bar> + 1)"
  shows "(\<exists>om\<in>set oms. \<exists>g\<in>set gs. om_grant_id om = g_grant_id g
            \<and> op_grant_id row = om_grant_id om \<and> op_metric_name row = om_metric_name om
            \<and> op_target_value row = om_target_value om
            \<and> op_current_value row = om_current_value om)
       \<and> (\<exists>p. achievement_percentage row = Some p
            \<and> p = f_round ar (f_div ar (f_mul ar 100 c) (op_target_value row)) 2
            \<and> (100.006 < p \<longrightarrow> op_status row = ''On Track'')
            \<and> (75.006 < p \<and> p < 99.994 \<longrightarrow> op_status row = ''Needs Attention'')
            \<and> (p < 74.994 \<longrightarrow> op_status row = ''At Risk''))"
proof -
  let ?t = "op_target_value row"
  let ?k = "f_mul ar ?t 0.75"
  let ?p = "f_round ar (f_div ar (f_mul ar 100 c) ?t) 2"
  from assms(1) obtain om g where og: "om \<in> set oms" "g \<in> set gs" "om_grant_id om = g_grant_id g"
    and r: "row = outcome_row ar om g"
    by (auto simp: v_outcome_performance_rows)
  have t: "?t = om_target_value om" and cv: "om_current_value om = Some c"
    using assms(3) by (simp_all add: r outcome_row_columns)
  have link: "\<exists>om\<in>set oms. \<exists>g\<in>set gs. om_grant_id om = g_grant_id g
            \<and> op_grant_id row = om_grant_id om \<and> op_metric_name row = om_metric_name om
            \<and> op_target_value row = om_target_value om
            \<and> op_current_value row = om_current_value om"
    using og unfolding r outcome_row_columns by blast
  have p: "achievement_percentage row = Some ?p"
    using assms(2) cv outcome_row_percentage [of om c ar g] by (simp add: r t [unfolded r])
  have s: "op_status row =
      (if ?t \<le> c then ''On Track'' else if ?k \<le> c then ''Needs Attention'' else ''At Risk'')"
    using assms(3) by (simp add: r outcome_row_columns outcome_status_cases)
  have e: "e \<le> 1 / 1000000" using assms(5) by simp
  have k: "\<bar>?k - ?t * (3 / 4)\<bar> \<le> e * \<bar>?t * (3 / 4)\<bar>" using assms(8) by simp
  have rd: "\<bar>?p - f_div ar (f_mul ar 100 c) ?t\<bar>
      \<le> 5 / 1000 + e * (\<bar>f_div ar (f_mul ar 100 c) ?t\<bar> + 1)"
    using assms(9) by simp
  from status_from_percentage [OF assms(2) assms(4) e assms(6) assms(7) k rd]
  have b: "(100006 / 1000 < ?p \<longrightarrow> ?t \<le> c) \<and> (?p < 99994 / 1000 \<longrightarrow> c < ?t)
       \<and> (75006 / 1000 < ?p \<longrightarrow> ?k \<le> c) \<and> (?p < 74994 / 1000 \<longrightarrow> c < ?k)" .
  have kt: "c < ?k \<Longrightarrow> c < ?t"
  proof -
    assume "c < ?k"
    moreover have "?k \<le> (1000001 / 1000000) * (?t * (3 / 4))"
      using rel_error_nonneg [OF k assms(4) e] assms(2) by simp
    ultimately show "c < ?t" using assms(2) by linarith
  qed
  have a1: "100.006 < ?p \<longrightarrow> op_status row = ''On Track''"
    using b by (simp add: s)
  have a2: "75.006 < ?p \<and> ?p < 99.994 \<longrightarrow> op_status row = ''Needs Attention''"
    using b by (auto simp: s)
  have a3: "?p < 74.994 \<longrightarrow> op_status row = ''At Risk''"
  proof
    assume "?p < 74.994"
    with b have "c < ?k" by simp
    with kt show "op_status row = ''At Risk''" by (simp add: s)
  qed
  from link p a1 a2 a3 show ?thesis by blast
qed

theorem outcome_status_of_percentage_witness:
  "map achievement_percentage
     (v_outcome_performance sample_arith [sample_grant 100000]
        [sample_metric ''GR001'' 200 (Some 199)]) = [Some 99.5]
   \<and> map op_status
     (v_outcome_performance sample_arith [sample_grant 100000]
        [sample_metric ''GR001'' 200 (Some 199)]) = [''Needs Attention'']
   \<and> map achievement_percentage
     (v_outcome_performance binary64_samples [sample_grant 100000]
        [sample_metric ''GR001'' stored_4_12 (Some stored_3_3)]) = [Some stored_80_1]
   \<and> map op_status
     (v_outcome_performance binary64_samples [sample_grant 100000]
        [sample_metric ''GR001'' stored_4_12 (Some stored_3_3)]) = [''Needs Attention'']
   \<and> 330 - 100 * stored_3_3 = 5 / 2 ^ 48"
proof -
  have exact: "map achievement_percentage
     (v_outcome_performance sample_arith [sample_grant 100000]
        [sample_metric ''GR001'' 200 (Some 199)]) = [Some 99.5]
   \<and> map op_status
     (v_outcome_performance sample_arith [sample_grant 100000]
        [sample_metric ''GR001'' 200 (Some 199)]) = [''Needs Attention'']"
  proof -
    let ?v = "v_outcome_performance sample_arith [sample_grant 100000]
          [sample_metric ''GR001'' 200 (Some 199)]"
    have v: "?v = [hd ?v]" by (simp add: v_outcome_performance_def sample_grant_def sample_metric_def)
    then have m: "hd ?v \<in> set ?v" by (metis list.set_intros(1))
    have t: "op_target_value (hd ?v) = 200" and c: "op_current_value (hd ?v) = Some 199"
      by (simp_all add: v_outcome_performance_def sample_grant_def sample_metric_def outcome_row_def)
    have t0: "0 < op_target_value (hd ?v)" by (simp add: t)
    have e: "(0 :: real) \<le> 0" "(0 :: real) \<le> 1 / 10 ^ 6" by simp_all
    have h1: "\<bar>f_mul sample_arith 100 199 - 100 * 199\<bar> \<le> 0 * \<bar>100 * 199 :: real\<bar>"
      by (simp add: sample_arith_def)
    have h2: "\<bar>f_div sample_arith (f_mul sample_arith 100 199) (op_target_value (hd ?v))
                - f_mul sample_arith 100 199 / op_target_value (hd ?v)\<bar>
              \<le> 0 * \<bar>f_mul sample_arith 100 199 / op_target_value (hd ?v)\<bar>"
      by (simp add: sample_arith_def)
    have h3: "\<bar>f_mul sample_arith (op_target_value (hd ?v)) 0.75 - op_target_value (hd ?v) * 0.75\<bar>
              \<le> 0 * \<bar>op_target_value (hd ?v) * 0.75\<bar>"
      by (simp add: sample_arith_def)
    have p: "f_round sample_arith
        (f_div sample_arith (f_mul sample_arith 100 199) (op_target_value (hd ?v))) 2 = 99.5"
      unfolding t by (simp add: sample_arith_def round_half_away_def)
    have q: "f_div sample_arith (f_mul sample_arith 100 199) (op_target_value (hd ?v)) = 99.5"
      unfolding t by (simp add: sample_arith_def)
    have h4: "\<bar>f_round sample_arith
                 (f_div sample_arith (f_mul sample_arith 100 199) (op_target_value (hd ?v))) 2
               - f_div sample_arith (f_mul sample_arith 100 199) (op_target_value (hd ?v))\<bar>
             \<le> 0.005 + 0 *
               (\<bar>f_div sample_arith (f_mul sample_arith 100 199) (op_target_value (hd ?v))\<bar> + 1)"
      unfolding q by (simp add: sample_arith_def round_half_away_def)
    from outcome_status_of_percentage [OF m t0 c e h1 h2 h3 h4]
    obtain p' where "achievement_percentage (hd ?v) = Some p'" and "p' = 99.5"
      and "75.006 < p' \<and> p' < 99.994 \<longrightarrow> op_status (hd ?v) = ''Needs Attention''"
      unfolding p by blast
    then have "achievement_percentage (hd ?v) = Some 99.5 \<and> op_status (hd ?v) = ''Needs Attention''"
      by simp
    then show ?thesis by (subst (1 2) v) simp
  qed
  have rounded: "map achievement_percentage
     (v_outcome_performance binary64_samples [sample_grant 100000]
        [sample_metric ''GR001'' stored_4_12 (Some stored_3_3)]) = [Some stored_80_1]
   \<and> map op_status
     (v_outcome_performance binary64_samples [sample_grant 100000]
        [sample_metric ''GR001'' stored_4_12 (Some stored_3_3)]) = [''Needs Attention'']
   \<and> 330 - 100 * stored_3_3 = 5 / 2 ^ 48"
  proof -
    let ?v = "v_outcome_performance binary64_samples [sample_grant 100000]
          [sample_metric ''GR001'' stored_4_12 (Some stored_3_3)]"
    have v: "?v = [hd ?v]" by (simp add: v_outcome_performance_def sample_grant_def sample_metric_def)
    then have m: "hd ?v \<in> set ?v" by (metis list.set_intros(1))
    have t: "op_target_value (hd ?v) = stored_4_12"
      and c: "op_current_value (hd ?v) = Some stored_3_3"
      by (simp_all add: v_outcome_performance_def sample_grant_def sample_metric_def outcome_row_def)
    have t0: "0 < op_target_value (hd ?v)" unfolding t by (simp add: stored_4_12_def)
    have e: "0 \<le> unit_roundoff" "unit_roundoff \<le> 1 / 10 ^ 6" by (simp_all add: unit_roundoff_def)
    have mu: "f_mul binary64_samples 100 stored_3_3 = 330"
      by (simp add: binary64_samples_def)
    have dv: "f_div binary64_samples 330 stored_4_12 = quotient_330_4_12"
      by (simp add: binary64_samples_def)
    have ku: "f_mul binary64_samples stored_4_12 0.75 = stored_3_09"
      by (simp add: binary64_samples_def stored_4_12_def)
    have rd: "f_round binary64_samples quotient_330_4_12 2 = stored_80_1"
      by (simp add: binary64_samples_def)
    have h1: "\<bar>f_mul binary64_samples 100 stored_3_3 - 100 * stored_3_3\<bar>
        \<le> unit_roundoff * \<bar>100 * stored_3_3\<bar>"
      unfolding mu by (simp add: stored_3_3_def unit_roundoff_def)
    have h2: "\<bar>f_div binary64_samples (f_mul binary64_samples 100 stored_3_3)
                  (op_target_value (hd ?v))
                - f_mul binary64_samples 100 stored_3_3 / op_target_value (hd ?v)\<bar>
              \<le> unit_roundoff * \<bar>f_mul binary64_samples 100 stored_3_3 / op_target_value (hd ?v)\<bar>"
      unfolding t mu dv by (simp add: quotient_330_4_12_def stored_4_12_def unit_roundoff_def)
    have h3: "\<bar>f_mul binary64_samples (op_target_value (hd ?v)) 0.75
                - op_target_value (hd ?v) * 0.75\<bar>
              \<le> unit_roundoff * \<bar>op_target_value (hd ?v) * 0.75\<bar>"
      unfolding t ku by (simp add: stored_3_09_def stored_4_12_def unit_roundoff_def)
    have h4: "\<bar>f_round binary64_samples
                 (f_div binary64_samples (f_mul binary64_samples 100 stored_3_3)
                    (op_target_value (hd ?v))) 2
               - f_div binary64_samples (f_mul binary64_samples 100 stored_3_3)
                    (op_target_value (hd ?v))\<bar>
             \<le> 0.005 + unit_roundoff *
               (\<bar>f_div binary64_samples (f_mul binary64_samples 100 stored_3_3)
                    (op_target_value (hd ?v))\<bar> + 1)"
      unfolding t mu dv rd by (simp add: quotient_330_4_12_def stored_80_1_def unit_roundoff_def)
    have b: "75.006 < stored_80_1 \<and> stored_80_1 < 99.994" by (simp add: stored_80_1_def)
    from outcome_status_of_percentage [OF m t0 c e h1 h2 h3 h4]
    obtain p' where "achievement_percentage (hd ?v) = Some p'" and "p' = stored_80_1"
      and "75.006 < p' \<and> p' < 99.994 \<longrightarrow> op_status (hd ?v) = ''Needs Attention''"
      unfolding t mu dv rd by blast
    with b have "achievement_percentage (hd ?v) = Some stored_80_1
        \<and> op_status (hd ?v) = ''Needs Attention''"
      by simp
    moreover have "330 - 100 * stored_3_3 = 5 / 2 ^ 48" by (simp add: stored_3_3_def)
    ultimately show ?thesis by (subst (1 2) v) simp
  qed
  from exact rounded show ?thesis by blast
qed


section \<open>Properties of the grant summary\<close>

lemma v_grant_summary_rows:
  "row \<in> set (v_grant_summary ar jd now gs bcs) \<longleftrightarrow>
     (\<exists>g\<in>set gs. row = grant_summary_row ar jd now g (left_join_bc g bcs))"
  by (auto simp: v_grant_summary_def)

lemma sql_sum_Nil: "sql_sum ar [] = None"
  by (simp add: sql_sum_def)




text \<open>
  The sum over the left join is the sum over the categories of the grant: the row of
  NULLs that stands for "no category" adds nothing.
\<close>

lemma joined_spent_left_join:
  "sql_sum ar (map joined_spent_amount (left_join_bc g bcs)) =
     sql_sum ar (map bc_spent_amount (filter (\<lambda>bc. g_grant_id g = bc_grant_id bc) bcs))"
  by (cases "filter (\<lambda>bc. g_grant_id g = bc_grant_id bc) bcs")
     (simp_all add: left_join_bc_def joined_spent_amount_def sql_sum_def comp_def)

text \<open>
  C10. A grant without budget categories keeps its row in the summary, and in every row
  with its key the columns total_spent, remaining_budget and spent_percentage are NULL,
  so remaining_budget + total_spent is not total_amount there.
\<close>

theorem grant_without_categories:
  assumes "g \<in> set gs" and "\<forall>bc\<in>set bcs. bc_grant_id bc \<noteq> g_grant_id g"
  shows "(\<exists>row\<in>set (v_grant_summary ar jd now gs bcs).
            gs_grant_id row = g_grant_id g \<and> gs_total_amount row = g_total_amount g)
       \<and> (\<forall>row\<in>set (v_grant_summary ar jd now gs bcs).
            gs_grant_id row = g_grant_id g \<longrightarrow>
              total_spent row = None \<and> remaining_budget row = None
              \<and> spent_percentage row = None
              \<and> sql_add ar (remaining_budget row) (total_spent row) \<noteq> Some (gs_total_amount row))"
proof (intro conjI ballI impI)
  show "\<exists>row\<in>set (v_grant_summary ar jd now gs bcs).
            gs_grant_id row = g_grant_id g \<and> gs_total_amount row = g_total_amount g"
    using assms(1) by (auto simp: v_grant_summary_def grant_summary_row_def)
next
  fix row
  assume "row \<in> set (v_grant_summary ar jd now gs bcs)" and i: "gs_grant_id row = g_grant_id g"
  then obtain g' where r: "row = grant_summary_row ar jd now g' (left_join_bc g' bcs)"
    by (auto simp: v_grant_summary_rows)
  with i have "g_grant_id g' = g_grant_id g" by (simp add: grant_summary_row_def)
  with assms(2) have "filter (\<lambda>bc. g_grant_id g' = bc_grant_id bc) bcs = []"
    by (auto simp: filter_empty_conv)
  then have s: "sql_sum ar (map joined_spent_amount (left_join_bc g' bcs)) = None"
    by (simp add: joined_spent_left_join sql_sum_Nil)
  show "total_spent row = None" "remaining_budget row = None" "spent_percentage row = None"
    "sql_add ar (remaining_budget row) (total_spent row) \<noteq> Some (gs_total_amount row)"
    by (simp_all add: r grant_summary_row_def s sql_round_def)
qed

theorem grant_without_categories_witness:
  "sample_grant 100000 \<in> set [sample_grant 100000]
   \<and> gs_grant_id (hd (v_grant_summary sample_arith sample_julianday 2460380.5
          [sample_grant 100000] [sample_category ''BC0001'' ''GR002'' 500 (Some 10)])) = ''GR001''
   \<and> spent_percentage (hd (v_grant_summary sample_arith sample_julianday 2460380.5
          [sample_grant 100000] [sample_category ''BC0001'' ''GR002'' 500 (Some 10)])) = None"
proof -
  let ?v = "v_grant_summary sample_arith sample_julianday 2460380.5 [sample_grant 100000]
              [sample_category ''BC0001'' ''GR002'' 500 (Some 10)]"
  have h1: "sample_grant 100000 \<in> set [sample_grant 100000]" by simp
  have h2: "\<forall>bc\<in>set [sample_category ''BC0001'' ''GR002'' 500 (Some 10)].
              bc_grant_id bc \<noteq> g_grant_id (sample_grant 100000)"
    by (simp add: sample_category_def sample_grant_def)
  have m: "hd ?v \<in> set ?v" by (simp add: v_grant_summary_def)
  have i: "gs_grant_id (hd ?v) = g_grant_id (sample_grant 100000)"
    by (simp add: v_grant_summary_def grant_summary_row_def)
  have k: "g_grant_id (sample_grant 100000) = ''GR001''" by (simp add: sample_grant_def)
  from grant_without_categories [OF h1 h2, of sample_arith sample_julianday "2460380.5"] m i
  have "spent_percentage (hd ?v) = None" by blast
  with h1 i k show ?thesis by simp
qed





subsection \<open>Zero denominators\<close>

text \<open>
  C2, as stated, fails. Neither ratio has a guard: a division by zero is NULL in SQLite,
  and the rounded NULL is NULL. A grant with total_amount 0 has spent_percentage NULL, a
  metric with target_value 0 has achievement_percentage NULL; neither is 0.
\<close>

theorem zero_denominator_counterexample:
  "map spent_percentage
     (v_grant_summary sample_arith sample_julianday 2460380.5 [sample_grant 0]
        [sample_category ''BC0001'' ''GR001'' 500 (Some 10)]) = [None]
   \<and> map achievement_percentage
     (v_outcome_performance sample_arith [sample_grant 0] [sample_metric ''GR001'' 0 (Some 5)])
     = [None]"
  by (simp add: v_grant_summary_def grant_summary_row_def left_join_bc_def joined_spent_amount_def
      sql_sum_def sample_grant_def sample_category_def sample_metric_def
      v_outcome_performance_def outcome_row_def sql_round_def)

text \<open>
  C2, amended. A ratio with a zero denominator is NULL, and nothing is raised:
  spent_percentage is NULL in every summary row with total_amount 0, and
  achievement_percentage is NULL in every outcome row with target_value 0.
\<close>

theorem zero_denominator_null:
  "(row \<in> set (v_grant_summary ar jd now gs bcs) \<and> gs_total_amount row = 0
      \<longrightarrow> spent_percentage row = None)
   \<and> (orow \<in> set (v_outcome_performance ar gs oms) \<and> op_target_value orow = 0
      \<longrightarrow> achievement_percentage orow = None)"
proof (intro conjI impI)
  assume "row \<in> set (v_grant_summary ar jd now gs bcs) \<and> gs_total_amount row = 0"
  then obtain g where "row = grant_summary_row ar jd now g (left_join_bc g bcs)"
    and "gs_total_amount row = 0"
    by (auto simp: v_grant_summary_rows)
  then show "spent_percentage row = None"
    by (cases "sql_sum ar (map joined_spent_amount (left_join_bc g bcs))")
       (simp_all add: grant_summary_row_def sql_round_def)
next
  assume "orow \<in> set (v_outcome_performance ar gs oms) \<and> op_target_value orow = 0"
  then obtain om g where "orow = outcome_row ar om g" and "op_target_value orow = 0"
    by (auto simp: v_outcome_performance_rows)
  then show "achievement_percentage orow = None"
    by (cases "om_current_value om") (simp_all add: outcome_row_def sql_round_def)
qed

theorem zero_denominator_null_witness:
  "hd (v_grant_summary sample_arith sample_julianday 2460380.5 [sample_grant 0]
        [sample_category ''BC0001'' ''GR001'' 500 (Some 10)])
     \<in> set (v_grant_summary sample_arith sample_julianday 2460380.5 [sample_grant 0]
        [sample_category ''BC0001'' ''GR001'' 500 (Some 10)])
   \<and> gs_total_amount (hd (v_grant_summary sample_arith sample_julianday 2460380.5
        [sample_grant 0] [sample_category ''BC0001'' ''GR001'' 500 (Some 10)])) = 0
   \<and> spent_percentage (hd (v_grant_summary sample_arith sample_julianday 2460380.5
        [sample_grant 0] [sample_category ''BC0001'' ''GR001'' 500 (Some 10)])) = None
   \<and> outcome_row sample_arith (sample_metric ''GR001'' 0 (Some 5)) (sample_grant 0)
     \<in> set (v_outcome_performance sample_arith [sample_grant 0]
          [sample_metric ''GR001'' 0 (Some 5)])
   \<and> op_target_value
       (outcome_row sample_arith (sample_metric ''GR001'' 0 (Some 5)) (sample_grant 0)) = 0
   \<and> achievement_percentage
       (outcome_row sample_arith (sample_metric ''GR001'' 0 (Some 5)) (sample_grant 0)) = None"
proof -
  let ?bcs = "[sample_category ''BC0001'' ''GR001'' 500 (Some 10)]"
  let ?v = "v_grant_summary sample_arith sample_julianday 2460380.5 [sample_grant 0] ?bcs"
  let ?oms = "[sample_metric ''GR001'' 0 (Some 5)]"
  let ?orow = "outcome_row sample_arith (sample_metric ''GR001'' 0 (Some 5)) (sample_grant 0)"
  have m: "hd ?v \<in> set ?v" by (simp add: v_grant_summary_def)
  have a: "gs_total_amount (hd ?v) = 0"
    by (simp add: v_grant_summary_def grant_summary_row_def sample_grant_def)
  have m': "?orow \<in> set (v_outcome_performance sample_arith [sample_grant 0] ?oms)"
    by (simp add: v_outcome_performance_def sample_grant_def sample_metric_def)
  have a': "op_target_value ?orow = 0"
    by (simp add: outcome_row_def sample_metric_def)
  from zero_denominator_null [of "hd ?v" sample_arith sample_julianday "2460380.5"
      "[sample_grant 0]" ?bcs ?orow ?oms] m a m' a'
  have "spent_percentage (hd ?v) = None \<and> achievement_percentage ?orow = None"
    by blast
  with m a m' a' show ?thesis by blast
qed

section \<open>Properties of the compliance alerts\<close>

lemma report_is_overdue_iff: "report_is_overdue r \<longleftrightarrow> r_status r = Some ''Overdue''"
  by (cases "r_status r") (auto simp: report_is_overdue_def sql_true_def)

lemma deliverable_is_overdue_iff: "deliverable_is_overdue d \<longleftrightarrow> d_status d = Some ''Overdue''"
  by (cases "d_status d") (auto simp: deliverable_is_overdue_def sql_true_def)

lemma category_is_overspent_iff:
  "category_is_overspent bc \<longleftrightarrow>
     (case bc_spent_amount bc of None \<Rightarrow> False | Some s \<Rightarrow> bc_budgeted_amount bc < s)"
  by (cases "bc_spent_amount bc") (auto simp: category_is_overspent_def sql_true_def)

lemma v_compliance_alerts_rows:
  "a \<in> set (v_compliance_alerts ar jd now rs ds bcs) \<longleftrightarrow>
     (\<exists>r\<in>set rs. r_status r = Some ''Overdue'' \<and> a = overdue_report ar jd now r)
   \<or> (\<exists>d\<in>set ds. d_status d = Some ''Overdue'' \<and> a = overdue_deliverable ar jd now d)
   \<or> (\<exists>bc\<in>set bcs. category_is_overspent bc \<and> a = budget_overspent ar bc)"
  by (auto simp: v_compliance_alerts_def report_is_overdue_iff deliverable_is_overdue_iff)

text \<open>
  C4. The view has one row for every report with status Overdue, one for every
  deliverable with status Overdue and one for every budget category that spent more than
  its budget: the three selections are concatenated and no row is merged with another.
\<close>

theorem alert_count:
  "length (v_compliance_alerts ar jd now rs ds bcs) =
     length (filter (\<lambda>r. r_status r = Some ''Overdue'') rs)
     + length (filter (\<lambda>d. d_status d = Some ''Overdue'') ds)
     + length (filter (\<lambda>bc. case bc_spent_amount bc of None \<Rightarrow> False
                             | Some s \<Rightarrow> bc_budgeted_amount bc < s) bcs)"
proof -
  have r: "report_is_overdue = (\<lambda>r. r_status r = Some ''Overdue'')"
    by (simp add: fun_eq_iff report_is_overdue_iff)
  have d: "deliverable_is_overdue = (\<lambda>d. d_status d = Some ''Overdue'')"
    by (simp add: fun_eq_iff deliverable_is_overdue_iff)
  have c: "category_is_overspent =
      (\<lambda>bc. case bc_spent_amount bc of None \<Rightarrow> False | Some s \<Rightarrow> bc_budgeted_amount bc < s)"
    by (simp add: fun_eq_iff category_is_overspent_iff)
  have "length (v_compliance_alerts ar jd now rs ds bcs) =
      length (filter report_is_overdue rs) + length (filter deliverable_is_overdue ds)
      + length (filter category_is_overspent bcs)"
    by (simp add: v_compliance_alerts_def)
  then show ?thesis
    unfolding r d c .
qed

subsection \<open>Order of the loaded alerts\<close>

lemma order_by_sorted:
  "sorted_wrt (\<lambda>a b. days_overdue (ca b) \<le> days_overdue (ca a)) (order_by_days_overdue_desc rows)"
proof -
  have "sorted (map (\<lambda>row. days_overdue (ca row)) (sort_key (\<lambda>row. days_overdue (ca row)) rows))"
    by (rule sorted_sort_key)
  then have "sorted_wrt (\<lambda>a b. days_overdue (ca a) \<le> days_overdue (ca b))
      (sort_key (\<lambda>row. days_overdue (ca row)) rows)"
    by (simp add: sorted_map)
  then show ?thesis
    by (simp add: order_by_days_overdue_desc_def sorted_wrt_rev)
qed

lemma order_by_mset: "mset (order_by_days_overdue_desc rows) = mset rows"
  by (simp add: order_by_days_overdue_desc_def)

lemma join_grants_rows:
  "row \<in> set (join_grants gs cas) \<longleftrightarrow>
     (\<exists>a\<in>set cas. \<exists>g\<in>set gs. ca_grant_id a = g_grant_id g \<and>
        row = \<lparr> ca = a, grant_name = g_grant_name g, funder_name = g_funder_name g \<rparr>)"
  by (auto simp: join_grants_def)

lemma load_compliance_alerts_set:
  "set (load_compliance_alerts ar jd now gs rs ds bcs) =
     set (join_grants gs (v_compliance_alerts ar jd now rs ds bcs))"
  unfolding load_compliance_alerts_def
  by (metis order_by_mset set_mset_mset)

text \<open>
  C5. The alerts loaded by the dashboard are the joined rows of the view, as one list
  in descending order of the column days_overdue, NULL last. In a row of an overdue
  report or deliverable that column is the number of days since the due date, in a row
  of an overspent category it is the rounded percentage over budget; both are ordered on
  one scale.
\<close>

theorem load_compliance_alerts_sorted:
  "sorted_wrt (\<lambda>a b. days_overdue (ca b) \<le> days_overdue (ca a))
      (load_compliance_alerts ar jd now gs rs ds bcs)
   \<and> mset (load_compliance_alerts ar jd now gs rs ds bcs) =
       mset (join_grants gs (v_compliance_alerts ar jd now rs ds bcs))
   \<and> (\<forall>row\<in>set (load_compliance_alerts ar jd now gs rs ds bcs).
        (alert_type (ca row) = ''Overdue Report''
           \<and> (\<exists>r\<in>set rs. days_overdue (ca row) = sql_sub ar (Some now) (jd (r_due_date r))))
      \<or> (alert_type (ca row) = ''Overdue Deliverable''
           \<and> (\<exists>d\<in>set ds. days_overdue (ca row) = sql_sub ar (Some now) (jd (d_due_date d))))
      \<or> (alert_type (ca row) = ''Budget Overspent''
           \<and> (\<exists>bc\<in>set bcs. days_overdue (ca row) =
                 sql_round ar (sql_div ar (sql_mul ar (Some 100)
                     (sql_sub ar (bc_spent_amount bc) (Some (bc_budgeted_amount bc))))
                   (Some (bc_budgeted_amount bc))) 2)))"
proof (intro conjI ballI)
  show "sorted_wrt (\<lambda>a b. days_overdue (ca b) \<le> days_overdue (ca a))
      (load_compliance_alerts ar jd now gs rs ds bcs)"
    by (simp add: load_compliance_alerts_def order_by_sorted)
  show "mset (load_compliance_alerts ar jd now gs rs ds bcs) =
       mset (join_grants gs (v_compliance_alerts ar jd now rs ds bcs))"
    by (simp add: load_compliance_alerts_def order_by_mset)
next
  fix row
  assume "row \<in> set (load_compliance_alerts ar jd now gs rs ds bcs)"
  then obtain a where a: "a \<in> set (v_compliance_alerts ar jd now rs ds bcs)" and r: "ca row = a"
    by (auto simp: load_compliance_alerts_set join_grants_rows)
  from a consider
      (rep) r' where "r' \<in> set rs" "a = overdue_report ar jd now r'"
    | (del) d where "d \<in> set ds" "a = overdue_deliverable ar jd now d"
    | (bud) bc where "bc \<in> set bcs" "a = budget_overspent ar bc"
    by (auto simp: v_compliance_alerts_rows)
  then show "(alert_type (ca row) = ''Overdue Report''
           \<and> (\<exists>r\<in>set rs. days_overdue (ca row) = sql_sub ar (Some now) (jd (r_due_date r))))
      \<or> (alert_type (ca row) = ''Overdue Deliverable''
           \<and> (\<exists>d\<in>set ds. days_overdue (ca row) = sql_sub ar (Some now) (jd (d_due_date d))))
      \<or> (alert_type (ca row) = ''Budget Overspent''
           \<and> (\<exists>bc\<in>set bcs. days_overdue (ca row) =
                 sql_round ar (sql_div ar (sql_mul ar (Some 100)
                     (sql_sub ar (bc_spent_amount bc) (Some (bc_budgeted_amount bc))))
                   (Some (bc_budgeted_amount bc))) 2))"
  proof cases
    case rep
    then show ?thesis unfolding r by (auto simp: overdue_report_def)
  next
    case del
    then show ?thesis unfolding r by (auto simp: overdue_deliverable_def)
  next
    case bud
    then show ?thesis unfolding r by (auto simp: budget_overspent_def)
  qed
qed

theorem load_compliance_alerts_sorted_witness:
  "sorted_wrt (\<lambda>a b. days_overdue (ca b) \<le> days_overdue (ca a))
     (load_compliance_alerts sample_arith sample_julianday 2460390.75 [sample_grant 100000]
        [sample_report ''GR001'' ''2024-03-01'' (Some ''Overdue'')]
        [sample_deliverable ''GR001'' ''2024-03-11'' (Some ''Overdue'')]
        [sample_category ''BC0001'' ''GR001'' 1000 (Some 1150)])
   \<and> map (\<lambda>row. (alert_type (ca row), days_overdue (ca row)))
     (load_compliance_alerts sample_arith sample_julianday 2460390.75 [sample_grant 100000]
        [sample_report ''GR001'' ''2024-03-01'' (Some ''Overdue'')]
        [sample_deliverable ''GR001'' ''2024-03-11'' (Some ''Overdue'')]
        [sample_category ''BC0001'' ''GR001'' 1000 (Some 1150)])
     = [(''Overdue Report'', Some 20.25), (''Budget Overspent'', Some 15),
        (''Overdue Deliverable'', Some 10.25)]"
proof -
  have "map (\<lambda>row. (alert_type (ca row), days_overdue (ca row)))
     (load_compliance_alerts sample_arith sample_julianday 2460390.75 [sample_grant 100000]
        [sample_report ''GR001'' ''2024-03-01'' (Some ''Overdue'')]
        [sample_deliverable ''GR001'' ''2024-03-11'' (Some ''Overdue'')]
        [sample_category ''BC0001'' ''GR001'' 1000 (Some 1150)])
     = [(''Overdue Report'', Some 20.25), (''Budget Overspent'', Some 15),
        (''Overdue Deliverable'', Some 10.25)]"
    by (simp add: load_compliance_alerts_def order_by_days_overdue_desc_def join_grants_def
        v_compliance_alerts_def report_is_overdue_def deliverable_is_overdue_def
        category_is_overspent_def sql_true_def overdue_report_def overdue_deliverable_def
        budget_overspent_def sample_grant_def sample_report_def sample_deliverable_def
        sample_category_def sample_julianday_def sql_round_def round_half_away_def
        sample_arith_def)
  with load_compliance_alerts_sorted [of sample_arith sample_julianday "2460390.75" "[sample_grant 100000]"
        "[sample_report ''GR001'' ''2024-03-01'' (Some ''Overdue'')]"
        "[sample_deliverable ''GR001'' ''2024-03-11'' (Some ''Overdue'')]"
        "[sample_category ''BC0001'' ''GR001'' 1000 (Some 1150)]"]
  show ?thesis by blast
qed

subsection \<open>Budget alerts\<close>

lemma budget_overspent_days:
  "bc_spent_amount bc = Some s \<Longrightarrow>
     days_overdue (budget_overspent ar bc) =
       (if bc_budgeted_amount bc = 0 then None
        else Some (f_round ar
               (f_div ar (f_mul ar 100 (f_sub ar s (bc_budgeted_amount bc)))
                  (bc_budgeted_amount bc)) 2))"
  by (simp add: budget_overspent_def sql_round_def)

text \<open>
  C8. Every budget category that spent more than its budget has a Budget Overspent row
  in the view, with its grant, its name and the severity
  round(100 * (spent - budgeted) / budgeted, 2), each operation being the one of SQLite on
  doubles. With a budget of 0 the quotient does not exist and the severity is NULL.
\<close>

theorem budget_overspent_alert:
  assumes "bc \<in> set bcs" and "bc_spent_amount bc = Some s" and "bc_budgeted_amount bc < s"
  shows "\<exists>a\<in>set (v_compliance_alerts ar jd now rs ds bcs).
           alert_type a = ''Budget Overspent'' \<and> ca_grant_id a = bc_grant_id bc
           \<and> item_name a = bc_category_name bc \<and> ca_due_date a = None
           \<and> days_overdue a =
               (if bc_budgeted_amount bc = 0 then None
                else Some (f_round ar
                       (f_div ar (f_mul ar 100 (f_sub ar s (bc_budgeted_amount bc)))
                          (bc_budgeted_amount bc)) 2))"
proof -
  from assms(2,3) have "category_is_overspent bc"
    by (simp add: category_is_overspent_iff)
  with assms(1) have "budget_overspent ar bc \<in> set (v_compliance_alerts ar jd now rs ds bcs)"
    by (auto simp: v_compliance_alerts_rows)
  moreover have "alert_type (budget_overspent ar bc) = ''Budget Overspent''"
    "ca_grant_id (budget_overspent ar bc) = bc_grant_id bc"
    "item_name (budget_overspent ar bc) = bc_category_name bc"
    "ca_due_date (budget_overspent ar bc) = None"
    by (simp_all add: budget_overspent_def)
  ultimately show ?thesis
    using budget_overspent_days [OF assms(2)] by blast
qed

theorem budget_overspent_alert_witness:
  "sample_category ''BC0001'' ''GR001'' 1000 (Some 1150)
      \<in> set [sample_category ''BC0001'' ''GR001'' 1000 (Some 1150)]
   \<and> bc_spent_amount (sample_category ''BC0001'' ''GR001'' 1000 (Some 1150)) = Some 1150
   \<and> bc_budgeted_amount (sample_category ''BC0001'' ''GR001'' 1000 (Some 1150)) < 1150
   \<and> (\<exists>a\<in>set (v_compliance_alerts sample_arith sample_julianday 2460390.75 [] []
                  [sample_category ''BC0001'' ''GR001'' 1000 (Some 1150)]).
         alert_type a = ''Budget Overspent'' \<and> ca_grant_id a = ''GR001''
         \<and> item_name a = ''Travel'' \<and> days_overdue a = Some 15)"
proof -
  let ?bc = "sample_category ''BC0001'' ''GR001'' 1000 (Some 1150)"
  have h1: "?bc \<in> set [?bc]" by simp
  have h2: "bc_spent_amount ?bc = Some 1150" by (simp add: sample_category_def)
  have h3: "bc_budgeted_amount ?bc < 1150" by (simp add: sample_category_def)
  have b: "bc_budgeted_amount ?bc = 1000" and g: "bc_grant_id ?bc = ''GR001''"
    and n: "bc_category_name ?bc = ''Travel''"
    by (simp_all add: sample_category_def)
  have r: "f_round sample_arith
      (f_div sample_arith (f_mul sample_arith 100 (f_sub sample_arith 1150 1000)) 1000) 2 = 15"
    by (simp add: sample_arith_def round_half_away_def)
  from budget_overspent_alert [OF h1 h2 h3, of sample_arith sample_julianday "2460390.75" "[]" "[]"]
  have "\<exists>a\<in>set (v_compliance_alerts sample_arith sample_julianday 2460390.75 [] [] [?bc]).
         alert_type a = ''Budget Overspent'' \<and> ca_grant_id a = ''GR001''
         \<and> item_name a = ''Travel'' \<and> days_overdue a = Some 15"
    unfolding b g n r by auto
  with h1 h2 h3 show ?thesis by blast
qed

subsection \<open>Days overdue\<close>

text \<open>
  C6, as stated, fails: the view does not take the floor. A report due on 2024-03-01
  (Julian day 2460370.5), read at Julian day 2460380.75, carries 10.25 days, and the floor
  of that is 10.
\<close>

theorem overdue_days_floor_counterexample:
  "map r_status [sample_report ''GR001'' ''2024-03-01'' (Some ''Overdue'')] = [Some ''Overdue'']
   \<and> map days_overdue
       (v_compliance_alerts sample_arith sample_julianday 2460380.75
          [sample_report ''GR001'' ''2024-03-01'' (Some ''Overdue'')] [] []) = [Some 10.25]
   \<and> sample_julianday ''2024-03-01'' = Some 2460370.5
   \<and> real_of_int \<lfloor>2460380.75 - 2460370.5 :: real\<rfloor> = 10"
  by (simp add: v_compliance_alerts_def report_is_overdue_def sql_true_def overdue_report_def
      sample_report_def sample_julianday_def sample_arith_def)

text \<open>
  C6, amended. Every report and every deliverable with status Overdue has an alert that
  carries days_overdue = julianday(now) - julianday(due_date), the difference in days with
  its fraction (NULL when the text of the due date is no date).
\<close>

theorem overdue_alert_days:
  "(r \<in> set rs \<and> r_status r = Some ''Overdue'' \<longrightarrow>
      (\<exists>a\<in>set (v_compliance_alerts ar jd now rs ds bcs).
          alert_type a = ''Overdue Report'' \<and> ca_grant_id a = r_grant_id r
          \<and> item_name a = r_report_type r \<and> ca_due_date a = Some (r_due_date r)
          \<and> days_overdue a = map_option (\<lambda>j. f_sub ar now j) (jd (r_due_date r))))
   \<and> (d \<in> set ds \<and> d_status d = Some ''Overdue'' \<longrightarrow>
      (\<exists>a\<in>set (v_compliance_alerts ar jd now rs ds bcs).
          alert_type a = ''Overdue Deliverable'' \<and> ca_grant_id a = d_grant_id d
          \<and> item_name a = d_deliverable_name d \<and> ca_due_date a = Some (d_due_date d)
          \<and> days_overdue a = map_option (\<lambda>j. f_sub ar now j) (jd (d_due_date d))))"
proof (intro conjI impI)
  assume "r \<in> set rs \<and> r_status r = Some ''Overdue''"
  then have "overdue_report ar jd now r \<in> set (v_compliance_alerts ar jd now rs ds bcs)"
    by (auto simp: v_compliance_alerts_rows)
  moreover have "days_overdue (overdue_report ar jd now r) =
      map_option (\<lambda>j. f_sub ar now j) (jd (r_due_date r))"
    by (cases "jd (r_due_date r)") (simp_all add: overdue_report_def)
  ultimately show "\<exists>a\<in>set (v_compliance_alerts ar jd now rs ds bcs).
          alert_type a = ''Overdue Report'' \<and> ca_grant_id a = r_grant_id r
          \<and> item_name a = r_report_type r \<and> ca_due_date a = Some (r_due_date r)
          \<and> days_overdue a = map_option (\<lambda>j. f_sub ar now j) (jd (r_due_date r))"
    by (intro rev_bexI [of "overdue_report ar jd now r"]) (simp_all add: overdue_report_def)
next
  assume "d \<in> set ds \<and> d_status d = Some ''Overdue''"
  then have "overdue_deliverable ar jd now d \<in> set (v_compliance_alerts ar jd now rs ds bcs)"
    by (auto simp: v_compliance_alerts_rows)
  moreover have "days_overdue (overdue_deliverable ar jd now d) =
      map_option (\<lambda>j. f_sub ar now j) (jd (d_due_date d))"
    by (cases "jd (d_due_date d)") (simp_all add: overdue_deliverable_def)
  ultimately show "\<exists>a\<in>set (v_compliance_alerts ar jd now rs ds bcs).
          alert_type a = ''Overdue Deliverable'' \<and> ca_grant_id a = d_grant_id d
          \<and> item_name a = d_deliverable_name d \<and> ca_due_date a = Some (d_due_date d)
          \<and> days_overdue a = map_option (\<lambda>j. f_sub ar now j) (jd (d_due_date d))"
    by (intro rev_bexI [of "overdue_deliverable ar jd now d"])
       (simp_all add: overdue_deliverable_def)
qed

theorem overdue_alert_days_witness:
  "sample_report ''GR001'' ''2024-03-01'' (Some ''Overdue'')
      \<in> set [sample_report ''GR001'' ''2024-03-01'' (Some ''Overdue'')]
   \<and> r_status (sample_report ''GR001'' ''2024-03-01'' (Some ''Overdue'')) = Some ''Overdue''
   \<and> sample_deliverable ''GR001'' ''2024-03-11'' (Some ''Overdue'')
      \<in> set [sample_deliverable ''GR001'' ''2024-03-11'' (Some ''Overdue'')]
   \<and> d_status (sample_deliverable ''GR001'' ''2024-03-11'' (Some ''Overdue'')) = Some ''Overdue''
   \<and> (\<exists>a\<in>set (v_compliance_alerts sample_arith sample_julianday 2460380.75
                  [sample_report ''GR001'' ''2024-03-01'' (Some ''Overdue'')]
                  [sample_deliverable ''GR001'' ''2024-03-11'' (Some ''Overdue'')] []).
         alert_type a = ''Overdue Report'' \<and> days_overdue a = Some 10.25)
   \<and> (\<exists>a\<in>set (v_compliance_alerts sample_arith sample_julianday 2460380.75
                  [sample_report ''GR001'' ''2024-03-01'' (Some ''Overdue'')]
                  [sample_deliverable ''GR001'' ''2024-03-11'' (Some ''Overdue'')] []).
         alert_type a = ''Overdue Deliverable'' \<and> days_overdue a = Some 0.25)"
proof -
  let ?r = "sample_report ''GR001'' ''2024-03-01'' (Some ''Overdue'')"
  let ?d = "sample_deliverable ''GR001'' ''2024-03-11'' (Some ''Overdue'')"
  have h1: "?r \<in> set [?r] \<and> r_status ?r = Some ''Overdue''" by (simp add: sample_report_def)
  have h2: "?d \<in> set [?d] \<and> d_status ?d = Some ''Overdue''"
    by (simp add: sample_deliverable_def)
  have e1: "map_option (\<lambda>j. f_sub sample_arith 2460380.75 j) (sample_julianday (r_due_date ?r))
      = Some 10.25"
    by (simp add: sample_report_def sample_julianday_def sample_arith_def)
  have e2: "map_option (\<lambda>j. f_sub sample_arith 2460380.75 j) (sample_julianday (d_due_date ?d))
      = Some 0.25"
    by (simp add: sample_deliverable_def sample_julianday_def sample_arith_def)
  note t = overdue_alert_days [where r = ?r and rs = "[?r]" and ar = sample_arith
      and jd = sample_julianday and now = "2460380.75" and ds = "[?d]" and bcs = "[]" and d = ?d,
      unfolded e1 e2]
  from t h1 have a: "\<exists>a\<in>set (v_compliance_alerts sample_arith sample_julianday 2460380.75
         [?r] [?d] []). alert_type a = ''Overdue Report'' \<and> days_overdue a = Some 10.25"
    by blast
  from t h2 have b: "\<exists>a\<in>set (v_compliance_alerts sample_arith sample_julianday 2460380.75
         [?r] [?d] []). alert_type a = ''Overdue Deliverable'' \<and> days_overdue a = Some 0.25"
    by blast
  from h1 h2 a b show ?thesis by blast
qed

section \<open>Rows without a grant\<close>

lemma join_grants_append:
  "join_grants gs (xs @ ys) = join_grants gs xs @ join_grants gs ys"
  by (simp add: join_grants_def)

lemma join_grants_missing:
  "\<forall>g\<in>set gs. g_grant_id g \<noteq> ca_grant_id a \<Longrightarrow> join_grants gs (a # cas) = join_grants gs cas"
proof -
  assume "\<forall>g\<in>set gs. g_grant_id g \<noteq> ca_grant_id a"
  then have "filter (\<lambda>g. ca_grant_id a = g_grant_id g) gs = []"
    by (auto simp: filter_empty_conv)
  then show ?thesis by (simp add: join_grants_def)
qed

lemma v_outcome_performance_append:
  "v_outcome_performance ar gs (xs @ ys) = v_outcome_performance ar gs xs @ v_outcome_performance ar gs ys"
  by (simp add: v_outcome_performance_def)

text \<open>
  C9, as stated, fails. Both results are inner joins with the grants: a metric and an
  overdue report of the grant GR999, which does not exist, yield no row and no failure.
\<close>

theorem missing_grant_counterexample:
  "v_outcome_performance sample_arith [sample_grant 100000] [sample_metric ''GR999'' 200 (Some 150)] = []
   \<and> load_compliance_alerts sample_arith sample_julianday 2460380.75 [sample_grant 100000]
       [sample_report ''GR999'' ''2024-03-01'' (Some ''Overdue'')] [] [] = []
   \<and> map ca_grant_id (v_compliance_alerts sample_arith sample_julianday 2460380.75
       [sample_report ''GR999'' ''2024-03-01'' (Some ''Overdue'')] [] []) = [''GR999'']"
  by (simp add: v_outcome_performance_def sample_grant_def sample_metric_def
      load_compliance_alerts_def order_by_days_overdue_desc_def join_grants_def
      v_compliance_alerts_def report_is_overdue_def sql_true_def overdue_report_def
      sample_report_def sample_arith_def)

text \<open>
  C9, amended. A metric, report, deliverable or budget category whose grant_id matches
  no grant is left out of the outcome view and of the loaded alerts: the result is the
  one the tables give without that row, and nothing fails.
\<close>

theorem missing_grant_dropped:
  assumes "\<forall>g\<in>set gs. g_grant_id g \<noteq> gid"
  shows "(om_grant_id om = gid \<longrightarrow>
            v_outcome_performance ar gs (oms1 @ om # oms2) = v_outcome_performance ar gs (oms1 @ oms2))
       \<and> (r_grant_id r = gid \<longrightarrow>
            load_compliance_alerts ar jd now gs (rs1 @ r # rs2) ds bcs =
            load_compliance_alerts ar jd now gs (rs1 @ rs2) ds bcs)
       \<and> (d_grant_id d = gid \<longrightarrow>
            load_compliance_alerts ar jd now gs rs (ds1 @ d # ds2) bcs =
            load_compliance_alerts ar jd now gs rs (ds1 @ ds2) bcs)
       \<and> (bc_grant_id bc = gid \<longrightarrow>
            load_compliance_alerts ar jd now gs rs ds (bcs1 @ bc # bcs2) =
            load_compliance_alerts ar jd now gs rs ds (bcs1 @ bcs2))"
proof (intro conjI impI)
  assume "om_grant_id om = gid"
  with assms have "filter (\<lambda>g. om_grant_id om = g_grant_id g) gs = []"
    by (auto simp: filter_empty_conv)
  then have "v_outcome_performance ar gs [om] = []"
    by (simp add: v_outcome_performance_def)
  then have "v_outcome_performance ar gs (oms1 @ [om] @ oms2) = v_outcome_performance ar gs (oms1 @ oms2)"
    unfolding v_outcome_performance_append by simp
  then show "v_outcome_performance ar gs (oms1 @ om # oms2) = v_outcome_performance ar gs (oms1 @ oms2)"
    by simp
next
  assume "r_grant_id r = gid"
  with assms have m: "\<forall>g\<in>set gs. g_grant_id g \<noteq> ca_grant_id (overdue_report ar jd now r)"
    by (simp add: overdue_report_def)
  have "join_grants gs (v_compliance_alerts ar jd now (rs1 @ r # rs2) ds bcs) =
      join_grants gs (v_compliance_alerts ar jd now (rs1 @ rs2) ds bcs)"
    using join_grants_missing [OF m]
    by (simp add: v_compliance_alerts_def join_grants_append)
  then show "load_compliance_alerts ar jd now gs (rs1 @ r # rs2) ds bcs =
            load_compliance_alerts ar jd now gs (rs1 @ rs2) ds bcs"
    by (simp add: load_compliance_alerts_def)
next
  assume "d_grant_id d = gid"
  with assms have m: "\<forall>g\<in>set gs. g_grant_id g \<noteq> ca_grant_id (overdue_deliverable ar jd now d)"
    by (simp add: overdue_deliverable_def)
  have "join_grants gs (v_compliance_alerts ar jd now rs (ds1 @ d # ds2) bcs) =
      join_grants gs (v_compliance_alerts ar jd now rs (ds1 @ ds2) bcs)"
    using join_grants_missing [OF m]
    by (simp add: v_compliance_alerts_def join_grants_append)
  then show "load_compliance_alerts ar jd now gs rs (ds1 @ d # ds2) bcs =
            load_compliance_alerts ar jd now gs rs (ds1 @ ds2) bcs"
    by (simp add: load_compliance_alerts_def)
next
  assume "bc_grant_id bc = gid"
  with assms have m: "\<forall>g\<in>set gs. g_grant_id g \<noteq> ca_grant_id (budget_overspent ar bc)"
    by (simp add: budget_overspent_def)
  have "join_grants gs (v_compliance_alerts ar jd now rs ds (bcs1 @ bc # bcs2)) =
      join_grants gs (v_compliance_alerts ar jd now rs ds (bcs1 @ bcs2))"
    using join_grants_missing [OF m]
    by (simp add: v_compliance_alerts_def join_grants_append)
  then show "load_compliance_alerts ar jd now gs rs ds (bcs1 @ bc # bcs2) =
            load_compliance_alerts ar jd now gs rs ds (bcs1 @ bcs2)"
    by (simp add: load_compliance_alerts_def)
qed

theorem missing_grant_dropped_witness:
  "v_outcome_performance sample_arith [sample_grant 100000]
      ([sample_metric ''GR001'' 200 (Some 150)] @ sample_metric ''GR999'' 200 (Some 150) # [])
     = v_outcome_performance sample_arith [sample_grant 100000] ([sample_metric ''GR001'' 200 (Some 150)] @ [])
   \<and> load_compliance_alerts sample_arith sample_julianday 2460380.75 [sample_grant 100000]
       ([] @ sample_report ''GR999'' ''2024-03-01'' (Some ''Overdue'') # []) [] []
     = load_compliance_alerts sample_arith sample_julianday 2460380.75 [sample_grant 100000] ([] @ []) [] []
   \<and> length (v_outcome_performance sample_arith [sample_grant 100000]
      ([sample_metric ''GR001'' 200 (Some 150)] @ sample_metric ''GR999'' 200 (Some 150) # [])) = 1"
proof -
  have h: "\<forall>g\<in>set [sample_grant 100000]. g_grant_id g \<noteq> ''GR999''"
    by (simp add: sample_grant_def)
  have m: "om_grant_id (sample_metric ''GR999'' 200 (Some 150)) = ''GR999''"
    by (simp add: sample_metric_def)
  have r: "r_grant_id (sample_report ''GR999'' ''2024-03-01'' (Some ''Overdue'')) = ''GR999''"
    by (simp add: sample_report_def)
  note t = missing_grant_dropped [OF h, where om = "sample_metric ''GR999'' 200 (Some 150)"
      and ar = sample_arith and ?oms1.0 = "[sample_metric ''GR001'' 200 (Some 150)]"
      and ?oms2.0 = "[]" and r = "sample_report ''GR999'' ''2024-03-01'' (Some ''Overdue'')"
      and jd = sample_julianday and now = "2460380.75" and ?rs1.0 = "[]" and ?rs2.0 = "[]"
      and ds = "[]" and bcs = "[]"]
  from t m have a: "v_outcome_performance sample_arith [sample_grant 100000]
      ([sample_metric ''GR001'' 200 (Some 150)] @ sample_metric ''GR999'' 200 (Some 150) # [])
     = v_outcome_performance sample_arith [sample_grant 100000] ([sample_metric ''GR001'' 200 (Some 150)] @ [])"
    by blast
  from t r have b: "load_compliance_alerts sample_arith sample_julianday 2460380.75 [sample_grant 100000]
       ([] @ sample_report ''GR999'' ''2024-03-01'' (Some ''Overdue'') # []) [] []
     = load_compliance_alerts sample_arith sample_julianday 2460380.75 [sample_grant 100000] ([] @ []) [] []"
    by blast
  have "length (v_outcome_performance sample_arith [sample_grant 100000]
      ([sample_metric ''GR001'' 200 (Some 150)] @ [])) = 1"
    by (simp add: v_outcome_performance_def sample_grant_def sample_metric_def)
  with a b show ?thesis by simp
qed

end
